theory Spec2Isabelle
  imports Complex_Main
begin

section \<open>Exceptions and results\<close>

text \<open>
  The dashboard is Python. Every exception the modelled code can raise is a value of
  \<open>exn\<close>, and a computation that may raise returns a sum with the exception on the
  left. Reflectances, index values and thresholds are Python floats; they are modelled
  by exact reals, so that the band algebra is the arithmetic the formulas denote
  (rounding of binary floating point is not modelled).
\<close>

datatype exn =
    TypeError
  | KeyError string
  | IndexError
  | AttributeError
  | ValueError
  | JSONDecodeError
  | EEException string
  | HTTPError nat
  | ConnectionError

definition bind :: "exn + 'a \<Rightarrow> ('a \<Rightarrow> exn + 'b) \<Rightarrow> exn + 'b" where
  "bind m f = (case m of Inl e \<Rightarrow> Inl e | Inr x \<Rightarrow> f x)"

section \<open>Rasters and band algebra\<close>

text \<open>
  An image of the imagery backend is an ordered list of named bands; a band gives every
  pixel a value. The pixel type is left open. The backend library is not part of the
  repository: the operations below are the ones the source calls, with the meaning
  their names and the source's own docstrings give them.
\<close>

type_synonym 'p band = "'p \<Rightarrow> real"
type_synonym 'p image = "(string \<times> 'p band) list"

definition band_names :: "'p image \<Rightarrow> string list" where
  "band_names img = map fst img"

text \<open>\<open>image.select(name)\<close>: the band of that name; the backend fails when there is none.\<close>

definition select :: "'p image \<Rightarrow> string \<Rightarrow> exn + 'p band" where
  "select img n = (case map_of img n of
      None \<Rightarrow> Inl (EEException n)
    | Some b \<Rightarrow> Inr b)"

text \<open>\<open>image.divide(c)\<close> with a number: every band, every pixel, divided by \<open>c\<close>.\<close>

definition divide_const :: "'p image \<Rightarrow> real \<Rightarrow> 'p image" where
  "divide_const img c = map (\<lambda>(n, b). (n, \<lambda>p. b p / c)) img"

text \<open>Per-pixel arithmetic on single bands.\<close>

definition add :: "'p band \<Rightarrow> 'p band \<Rightarrow> 'p band" where
  "add a b = (\<lambda>p. a p + b p)"

definition subtract :: "'p band \<Rightarrow> 'p band \<Rightarrow> 'p band" where
  "subtract a b = (\<lambda>p. a p - b p)"

definition multiply :: "'p band \<Rightarrow> real \<Rightarrow> 'p band" where
  "multiply a c = (\<lambda>p. a p * c)"

definition divide_by :: "'p band \<Rightarrow> real \<Rightarrow> 'p band" where
  "divide_by a c = (\<lambda>p. a p / c)"

definition divide_band :: "'p band \<Rightarrow> 'p band \<Rightarrow> 'p band" where
  "divide_band a b = (\<lambda>p. a p / b p)"

definition rename :: "'p band \<Rightarrow> string \<Rightarrow> string \<times> 'p band" where
  "rename b n = (n, b)"

text \<open>
  \<open>image.addBands(src, names, overwrite)\<close>. The source passes only \<open>src\<close>, so
  \<open>overwrite\<close> takes the backend's default, which the repository does not fix; it is a
  parameter here. With \<open>overwrite\<close> a band of \<open>src\<close> replaces the band of the same name
  in place. Without it the existing band stays and the new one is appended under the
  first free name among \<open>n_1\<close>, \<open>n_2\<close>, ...; the image has too few bands for all of the
  first \<open>length img\<close> candidates to be taken, which bounds the search. A band whose
  name is not taken is appended in both cases.
\<close>

definition digit :: "nat \<Rightarrow> char" where
  "digit n = ''0123456789'' ! n"

function decimal :: "nat \<Rightarrow> string" where
  "decimal n = (if n < 10 then [digit n] else decimal (n div 10) @ [digit (n mod 10)])"
  by pat_completeness auto
termination
  by (relation "measure id") auto

declare decimal.simps [simp del]

definition suffixed :: "string \<Rightarrow> nat \<Rightarrow> string" where
  "suffixed n k = n @ ''_'' @ decimal k"

fun free_name :: "nat \<Rightarrow> nat \<Rightarrow> string list \<Rightarrow> string \<Rightarrow> string" where
  "free_name 0 k taken n = suffixed n k"
| "free_name (Suc fuel) k taken n =
     (if suffixed n k \<in> set taken then free_name fuel (Suc k) taken n else suffixed n k)"

definition replace_band :: "'p image \<Rightarrow> string \<times> 'p band \<Rightarrow> 'p image" where
  "replace_band img nb = map (\<lambda>(n, b). if n = fst nb then nb else (n, b)) img"

definition add_band :: "bool \<Rightarrow> 'p image \<Rightarrow> string \<times> 'p band \<Rightarrow> 'p image" where
  "add_band overwrite img nb =
     (if fst nb \<notin> set (band_names img) then img @ [nb]
      else if overwrite then replace_band img nb
      else img @ [(free_name (length img) 1 (band_names img) (fst nb), snd nb)])"

definition addBands :: "bool \<Rightarrow> 'p image \<Rightarrow> (string \<times> 'p band) list \<Rightarrow> 'p image" where
  "addBands overwrite img src = foldl (add_band overwrite) img src"

subsection \<open>The index functions\<close>

text \<open>\<open>normalize\<close> of app2.py and app3.py: reflectance 0..10000 to 0..1.\<close>

definition normalize :: "'p image \<Rightarrow> 'p image" where
  "normalize im = divide_const im 10000"

text \<open>
  The expression string of the chlorophyll index,
  \<open>b5 - b4 - (b6 - b4)*((705-665)/(740-665))\<close>, is evaluated by the backend, per pixel.
  Its factor is a quotient of two integer constants, and what the backend's \<open>/\<close> gives
  for two integers is not fixed by the repository: it is the parameter \<open>const_div\<close>.
  Exact division gives the factor 40/75, integer division the factor 0.
\<close>

definition mci_expression ::
  "(int \<Rightarrow> int \<Rightarrow> real) \<Rightarrow> 'p band \<Rightarrow> 'p band \<Rightarrow> 'p band \<Rightarrow> 'p band" where
  "mci_expression const_div b4 b5 b6 =
     (\<lambda>p. b5 p - b4 p - (b6 p - b4 p) * const_div (705 - 665) (740 - 665))"

definition exact_div :: "int \<Rightarrow> int \<Rightarrow> real" where
  "exact_div a b = real_of_int a / real_of_int b"

definition floor_div :: "int \<Rightarrow> int \<Rightarrow> real" where
  "floor_div a b = real_of_int (a div b)"

text \<open>\<open>add_fai_mci_turbidity\<close> of app2.py (app3.py has the same body with the
  wavelengths written in place).\<close>

definition add_fai_mci_turbidity ::
  "bool \<Rightarrow> (int \<Rightarrow> int \<Rightarrow> real) \<Rightarrow> 'p image \<Rightarrow> exn + 'p image" where
  "add_fai_mci_turbidity overwrite const_div im =
     (let img = normalize im in
      bind (select img ''B4'') (\<lambda>red.
      bind (select img ''B8'') (\<lambda>nir.
      bind (select img ''B11'') (\<lambda>swir.
      let RED_WL = 665; NIR_WL = 842; SWIR_WL = 1610;
          baseline = add red (divide_by (multiply (subtract swir red) (NIR_WL - RED_WL))
                                     (SWIR_WL - RED_WL));
          fai = rename (subtract nir baseline) ''FAI'' in
      bind (select img ''B4'') (\<lambda>b4.
      bind (select img ''B5'') (\<lambda>b5.
      bind (select img ''B6'') (\<lambda>b6.
      let mci = rename (mci_expression const_div b4 b5 b6) ''MCI'' in
      bind (select img ''B11'') (\<lambda>t11.
      bind (select img ''B4'') (\<lambda>t4.
      let turb = rename (divide_band t11 t4) ''Turbidity'' in
      Inr (addBands overwrite im [fai, mci, turb]))))))))))"

text \<open>\<open>add_fai_mci\<close> of app.py, the first version of the script: the same two formulas
  on the bands as they come, two indices, added one after the other.\<close>

definition add_fai_mci ::
  "bool \<Rightarrow> (int \<Rightarrow> int \<Rightarrow> real) \<Rightarrow> 'p image \<Rightarrow> exn + 'p image" where
  "add_fai_mci overwrite const_div im =
     bind (select im ''B4'') (\<lambda>red.
     bind (select im ''B8'') (\<lambda>nir.
     bind (select im ''B11'') (\<lambda>swir1.
     let RED_WL = 665; NIR_WL = 842; SWIR_WL = 1610;
         baseline = add red (divide_by (multiply (subtract swir1 red) (NIR_WL - RED_WL))
                                    (SWIR_WL - RED_WL));
         fai = rename (subtract nir baseline) ''FAI'' in
     bind (select im ''B4'') (\<lambda>b4.
     bind (select im ''B5'') (\<lambda>b5.
     bind (select im ''B6'') (\<lambda>b6.
     let mci = rename (mci_expression const_div b4 b5 b6) ''MCI'' in
     Inr (addBands overwrite (addBands overwrite im [fai]) [mci])))))))"

text \<open>The band names the index functions read, and the ones they add.\<close>

definition raw_bands :: "string list" where
  "raw_bands = [''B4'', ''B5'', ''B6'', ''B8'', ''B11'']"

definition derived_bands :: "string list" where
  "derived_bands = [''FAI'', ''MCI'', ''Turbidity'']"

text \<open>The bands of an image whose names are in a given list, in the image's order.\<close>

definition restrict_to :: "'p image \<Rightarrow> string list \<Rightarrow> 'p image" where
  "restrict_to img names = filter (\<lambda>nb. fst nb \<in> set names) img"

text \<open>A one-valued raster with the raw reflectances B4 = 2000, B8 = 4000, B11 = 3000,
  B5 = 2500, B6 = 3200 on every pixel; pixels are numbered.\<close>

definition example_image :: "nat image" where
  "example_image = [(''B4'', \<lambda>p. 2000), (''B8'', \<lambda>p. 4000), (''B11'', \<lambda>p. 3000),
                    (''B5'', \<lambda>p. 2500), (''B6'', \<lambda>p. 3200)]"

text \<open>The value of one band of a result at one pixel, or the exception on the way.\<close>

definition band_value :: "exn + 'p image \<Rightarrow> string \<Rightarrow> 'p \<Rightarrow> exn + real" where
  "band_value result n p = bind result (\<lambda>img. bind (select img n) (\<lambda>b. Inr (b p)))"

section \<open>Sidebar output\<close>

text \<open>
  What the functions write to the sidebar, in order. Fixed texts are kept as strings
  (without the pictographs of the source); a formatted line keeps its arguments:
  \<open>Sidebar_mean k v\<close> is the line \<open>- **k Mean:** v\<close>, \<open>Sidebar_alert ks\<close> the error box
  that joins the names \<open>ks\<close> and ends in \<open>above safe levels!\<close>, and
  \<open>Sidebar_error_exn t e\<close> the error box with the text \<open>t\<close> followed by the exception.
\<close>

datatype notice =
    Sidebar_markdown string
  | Sidebar_mean string real
  | Sidebar_alert "string list"
  | Sidebar_success string
  | Sidebar_error string
  | Sidebar_error_exn string exn
  | Sidebar_info string

section \<open>Alerts against thresholds\<close>

text \<open>
  \<open>render_sidebar_metrics\<close> (app2.py, app3.py). \<open>compute_mean_value\<close> is a round trip
  to the backend for one band of the mean image over the area of interest; here it is
  the function \<open>cmv\<close> from the band name to the number returned or the exception
  raised. \<open>thresholds\<close> is a dictionary; \<open>thresholds[key]\<close> raises \<open>KeyError\<close> on a
  missing key. The loop carries the sidebar lines written so far and the list
  \<open>alerts\<close>; an exception leaves the lines already written.
\<close>

fun metrics_loop ::
  "(string \<Rightarrow> exn + real) \<Rightarrow> (string \<rightharpoonup> real) \<Rightarrow> string list \<Rightarrow>
     notice list \<Rightarrow> string list \<Rightarrow> notice list \<times> (exn + string list)" where
  "metrics_loop cmv thresholds [] ui alerts = (ui, Inr alerts)"
| "metrics_loop cmv thresholds (key # keys) ui alerts =
     (case cmv key of
        Inl e \<Rightarrow> (ui, Inl e)
      | Inr val \<Rightarrow>
          (case thresholds key of
             None \<Rightarrow> (ui @ [Sidebar_mean key val], Inl (KeyError key))
           | Some t \<Rightarrow>
               metrics_loop cmv thresholds keys (ui @ [Sidebar_mean key val])
                 (if val > t then alerts @ [key] else alerts)))"

definition render_sidebar_metrics ::
  "string list \<Rightarrow> (string \<Rightarrow> exn + real) \<Rightarrow> (string \<rightharpoonup> real) \<Rightarrow>
     notice list \<times> (exn + unit)" where
  "render_sidebar_metrics selected_layers cmv thresholds =
     (case metrics_loop cmv thresholds selected_layers
             [Sidebar_markdown ''## Water Quality Summary''] [] of
        (ui, Inl e) \<Rightarrow> (ui, Inl e)
      | (ui, Inr alerts) \<Rightarrow>
          (if alerts \<noteq> [] then (ui @ [Sidebar_alert alerts], Inr ())
           else (ui @ [Sidebar_success ''All metrics within safe limits''], Inr ())))"

text \<open>The part of \<open>main\<close> that feeds it: the three layer check boxes (\<open>checkbox\<close> is the
  state of the box of each name), the list \<open>selected\<close>, and the thresholds.\<close>

definition layers :: "string list" where
  "layers = [''FAI'', ''MCI'', ''Turbidity'']"

definition thresholds_main :: "string \<rightharpoonup> real" where
  "thresholds_main = [''FAI'' \<mapsto> 0.05, ''MCI'' \<mapsto> 0.02, ''Turbidity'' \<mapsto> 1.8]"

definition main_metrics :: "(string \<Rightarrow> bool) \<Rightarrow> (string \<Rightarrow> exn + real) \<Rightarrow> notice list \<times> (exn + unit)" where
  "main_metrics checkbox cmv =
     (let selected = filter checkbox layers in
      render_sidebar_metrics selected cmv thresholds_main)"

text \<open>A backend that answers the mean of a band from a table, for the evaluations.\<close>

definition means_table :: "(string \<times> real) list \<Rightarrow> string \<Rightarrow> exn + real" where
  "means_table tab k = (case map_of tab k of None \<Rightarrow> Inl (EEException k) | Some v \<Rightarrow> Inr v)"

section \<open>Parsed JSON and the Python operations on it\<close>

text \<open>
  The value \<open>json.loads\<close> returns: \<open>None\<close>, a bool, a number, a \<open>str\<close>, a \<open>list\<close> or a
  \<open>dict\<close> with string keys (an association list with distinct keys, looked up with
  \<open>map_of\<close>). The operations are Python's, on every kind of value, with the exception
  each raises.
\<close>

datatype json =
    JNull
  | JBool bool
  | JNum real
  | JStr string
  | JList "json list"
  | JDict "(string \<times> json) list"

fun is_prefix :: "string \<Rightarrow> string \<Rightarrow> bool" where
  "is_prefix [] s = True"
| "is_prefix (x # xs) [] = False"
| "is_prefix (x # xs) (y # ys) = (x = y \<and> is_prefix xs ys)"

fun contains_str :: "string \<Rightarrow> string \<Rightarrow> bool" where
  "contains_str k [] = (k = [])"
| "contains_str k (c # cs) = (is_prefix k (c # cs) \<or> contains_str k cs)"

text \<open>\<open>k in obj\<close> for a string \<open>k\<close>: a key of a dict, an element of a list, a substring
  of a string; anything else is not iterable.\<close>

fun py_in :: "string \<Rightarrow> json \<Rightarrow> exn + bool" where
  "py_in k (JDict kvs) = Inr (k \<in> set (map fst kvs))"
| "py_in k (JList xs) = Inr (JStr k \<in> set xs)"
| "py_in k (JStr s) = Inr (contains_str k s)"
| "py_in k JNull = Inl TypeError"
| "py_in k (JBool b) = Inl TypeError"
| "py_in k (JNum x) = Inl TypeError"

text \<open>\<open>obj[k]\<close> for a string \<open>k\<close>.\<close>

fun getitem_str :: "json \<Rightarrow> string \<Rightarrow> exn + json" where
  "getitem_str (JDict kvs) k = (case map_of kvs k of None \<Rightarrow> Inl (KeyError k) | Some v \<Rightarrow> Inr v)"
| "getitem_str (JList xs) k = Inl TypeError"
| "getitem_str (JStr s) k = Inl TypeError"
| "getitem_str JNull k = Inl TypeError"
| "getitem_str (JBool b) k = Inl TypeError"
| "getitem_str (JNum x) k = Inl TypeError"

text \<open>\<open>obj[i]\<close> for an index \<open>i \<ge> 0\<close>; a dict loaded from JSON has no integer key.\<close>

fun getitem_int :: "json \<Rightarrow> nat \<Rightarrow> exn + json" where
  "getitem_int (JList xs) i = (if i < length xs then Inr (xs ! i) else Inl IndexError)"
| "getitem_int (JStr s) i = (if i < length s then Inr (JStr [s ! i]) else Inl IndexError)"
| "getitem_int (JDict kvs) i = Inl (KeyError (decimal i))"
| "getitem_int JNull i = Inl TypeError"
| "getitem_int (JBool b) i = Inl TypeError"
| "getitem_int (JNum x) i = Inl TypeError"

text \<open>\<open>obj.get(k, default)\<close>: only a dict has the method.\<close>

fun py_get :: "json \<Rightarrow> string \<Rightarrow> json \<Rightarrow> exn + json" where
  "py_get (JDict kvs) k dflt = Inr (case map_of kvs k of None \<Rightarrow> dflt | Some v \<Rightarrow> v)"
| "py_get (JList xs) k dflt = Inl AttributeError"
| "py_get (JStr s) k dflt = Inl AttributeError"
| "py_get JNull k dflt = Inl AttributeError"
| "py_get (JBool b) k dflt = Inl AttributeError"
| "py_get (JNum x) k dflt = Inl AttributeError"

text \<open>\<open>for p in obj\<close>: the elements of a list, the keys of a dict, the characters of a
  string.\<close>

fun py_iter :: "json \<Rightarrow> exn + json list" where
  "py_iter (JList xs) = Inr xs"
| "py_iter (JDict kvs) = Inr (map (\<lambda>kv. JStr (fst kv)) kvs)"
| "py_iter (JStr s) = Inr (map (\<lambda>c. JStr [c]) s)"
| "py_iter JNull = Inl TypeError"
| "py_iter (JBool b) = Inl TypeError"
| "py_iter (JNum x) = Inl TypeError"

text \<open>\<open>obj + t\<close> and \<open>s + obj\<close> with \<open>s\<close>, \<open>t\<close> strings: concatenation when \<open>obj\<close> is a
  string, \<open>TypeError\<close> otherwise.\<close>

fun py_add_right :: "json \<Rightarrow> string \<Rightarrow> exn + string" where
  "py_add_right (JStr s) t = Inr (s @ t)"
| "py_add_right (JList xs) t = Inl TypeError"
| "py_add_right (JDict kvs) t = Inl TypeError"
| "py_add_right JNull t = Inl TypeError"
| "py_add_right (JBool b) t = Inl TypeError"
| "py_add_right (JNum x) t = Inl TypeError"

fun py_add_left :: "string \<Rightarrow> json \<Rightarrow> exn + string" where
  "py_add_left s (JStr t) = Inr (s @ t)"
| "py_add_left s (JList xs) = Inl TypeError"
| "py_add_left s (JDict kvs) = Inl TypeError"
| "py_add_left s JNull = Inl TypeError"
| "py_add_left s (JBool b) = Inl TypeError"
| "py_add_left s (JNum x) = Inl TypeError"

text \<open>A list comprehension whose body may raise, and \<open>names.index(choice)\<close>.\<close>

fun map_exn :: "('a \<Rightarrow> exn + 'b) \<Rightarrow> 'a list \<Rightarrow> exn + 'b list" where
  "map_exn f [] = Inr []"
| "map_exn f (x # xs) = bind (f x) (\<lambda>y. bind (map_exn f xs) (\<lambda>ys. Inr (y # ys)))"

fun index_of :: "string list \<Rightarrow> string \<Rightarrow> exn + nat" where
  "index_of [] c = Inl ValueError"
| "index_of (n # ns) c = (if n = c then Inr 0 else bind (index_of ns c) (\<lambda>i. Inr (Suc i)))"

text \<open>A parser that knows finitely many texts and rejects every other one, for the
  evaluations; \<open>json.loads\<close> itself is a parameter of the functions below.\<close>

definition loads_table :: "(string \<times> json) list \<Rightarrow> string \<Rightarrow> exn + json" where
  "loads_table tab s = (case map_of tab s of None \<Rightarrow> Inl JSONDecodeError | Some j \<Rightarrow> Inr j)"

section \<open>Area of interest\<close>

text \<open>
  A geometry of the backend: a polygon given by its rings of (longitude, latitude)
  pairs, or any other geometry made from a GeoJSON dictionary.
\<close>

datatype geometry =
    Polygon "(real \<times> real) list list"
  | Other_geometry json

text \<open>\<open>get_default_geometry\<close>: the lake boundary, the same list in all three files.\<close>

definition default_coords :: "(real \<times> real) list" where
  "default_coords =
       [(77.6392446351248, 12.921051012051585),
        (77.63899787189543, 12.920078493132383),
        (77.63889435291664, 12.919004787930328),
        (77.63891849279777, 12.918905443959652),
        (77.63897481918708, 12.918868843539448),
        (77.64090064525978, 12.918105462124162),
        (77.64099720478431, 12.918168205890122),
        (77.64158729076759, 12.918732899074577),
        (77.6439254160206, 12.921726115590571),
        (77.64401392891808, 12.921745722734912),
        (77.64406891420289, 12.92177317273437),
        (77.64409573629304, 12.921830687009194),
        (77.64408836311765, 12.921905261527495),
        (77.64500031418271, 12.92281503075012),
        (77.64506468719907, 12.92293528735337),
        (77.64503786510892, 12.923029401176393),
        (77.64451751656003, 12.923834595767756),
        (77.64441559261746, 12.923892109567786),
        (77.64130959457822, 12.923060772442854),
        (77.64042983002133, 12.923322199510041),
        (77.64032254166074, 12.923311742432603),
        (77.6392446351248, 12.921051012051585)]"

definition get_default_geometry :: geometry where
  "get_default_geometry = Polygon [default_coords]"

text \<open>
  The body of the \<open>try\<close> in \<open>get_custom_geometry\<close> of app2.py. \<open>loads\<close> is \<open>json.loads\<close>
  and \<open>ee_Geometry\<close> the backend's geometry constructor; both are library functions
  and parameters here, returning a value or the exception they raise.
\<close>

definition try_geojson_app2 ::
  "(string \<Rightarrow> exn + json) \<Rightarrow> (json \<Rightarrow> exn + geometry) \<Rightarrow> string \<Rightarrow> exn + geometry" where
  "try_geojson_app2 loads ee_Geometry geojson_str =
     bind (loads geojson_str) (\<lambda>geojson.
     bind (py_in ''features'' geojson) (\<lambda>has_features.
     bind (if has_features then
             bind (getitem_str geojson ''features'') (\<lambda>fs.
             bind (getitem_int fs 0) (\<lambda>f. getitem_str f ''geometry''))
           else
             bind (py_in ''geometry'' geojson) (\<lambda>has_geometry.
             if has_geometry then getitem_str geojson ''geometry'' else Inr geojson))
       (\<lambda>geom. ee_Geometry geom)))"

text \<open>\<open>get_custom_geometry\<close> of app2.py. \<open>choice\<close> is the radio button, \<open>geojson_str\<close>
  the text area. The result is what was written to the sidebar and the value returned
  or the exception that leaves the function.\<close>

definition get_custom_geometry_app2 ::
  "(string \<Rightarrow> exn + json) \<Rightarrow> (json \<Rightarrow> exn + geometry) \<Rightarrow> string \<Rightarrow> string \<Rightarrow>
     notice list \<times> (exn + geometry)" where
  "get_custom_geometry_app2 loads ee_Geometry choice geojson_str =
     (let ui = [Sidebar_markdown ''## AOI Selection''] in
      if choice = ''Custom GeoJSON'' then
        if geojson_str \<noteq> [] then
          (case try_geojson_app2 loads ee_Geometry geojson_str of
             Inr g \<Rightarrow> (ui, Inr g)
           | Inl e \<Rightarrow> (ui @ [Sidebar_error_exn ''Invalid GeoJSON: '' e], Inr get_default_geometry))
        else (ui @ [Sidebar_info ''Awaiting GeoJSON input...''], Inr get_default_geometry)
      else (ui, Inr get_default_geometry))"

text \<open>The same for app3.py, whose conditional expression uses \<open>get\<close>.\<close>

definition try_geojson_app3 ::
  "(string \<Rightarrow> exn + json) \<Rightarrow> (json \<Rightarrow> exn + geometry) \<Rightarrow> string \<Rightarrow> exn + geometry" where
  "try_geojson_app3 loads ee_Geometry geojson_str =
     bind (loads geojson_str) (\<lambda>gj.
     bind (py_in ''features'' gj) (\<lambda>has_features.
     bind (if has_features then
             bind (py_get gj ''features'' JNull) (\<lambda>fs.
             bind (getitem_int fs 0) (\<lambda>f. getitem_str f ''geometry''))
           else py_get gj ''geometry'' gj)
       (\<lambda>geom. ee_Geometry geom)))"

text \<open>
  The polygon service of app3.py. \<open>requests_get url appid\<close> is the HTTP request: the
  response, or the exception of a failed connection. \<open>raise_for_status\<close> raises on a
  status from 400 to 599; \<open>resp.json()\<close> parses the body.
\<close>

record response =
  status_code :: nat
  content :: string

definition API_BASE :: string where
  "API_BASE = ''https://api.agromonitoring.com/agro/1.0''"

definition raise_for_status :: "response \<Rightarrow> exn + unit" where
  "raise_for_status resp =
     (if 400 \<le> status_code resp \<and> status_code resp < 600
      then Inl (HTTPError (status_code resp)) else Inr ())"

definition list_polygons_api ::
  "(string \<Rightarrow> string \<Rightarrow> exn + response) \<Rightarrow> (string \<Rightarrow> exn + json) \<Rightarrow> string \<Rightarrow> exn + json" where
  "list_polygons_api requests_get loads appid =
     bind (requests_get (API_BASE @ ''/polygons'') appid) (\<lambda>resp.
     bind (raise_for_status resp) (\<lambda>u.
     loads (content resp)))"

text \<open>The label \<open>p['name'] + ' (' + p['id'] + ')'\<close> of one polygon.\<close>

definition polygon_label :: "json \<Rightarrow> exn + string" where
  "polygon_label p =
     bind (getitem_str p ''name'') (\<lambda>name.
     bind (py_add_right name '' ('') (\<lambda>s1.
     bind (getitem_str p ''id'') (\<lambda>ident.
     bind (py_add_left s1 ident) (\<lambda>s2.
     Inr (s2 @ '')'')))))"

text \<open>\<open>get_polygon_from_api\<close>: \<open>selectbox\<close> is the user's pick among the options shown;
  the function returns \<open>None\<close> when the pick is \<open>--None--\<close>.\<close>

definition get_polygon_from_api ::
  "(string \<Rightarrow> string \<Rightarrow> exn + response) \<Rightarrow> (string \<Rightarrow> exn + json) \<Rightarrow>
   (json \<Rightarrow> exn + geometry) \<Rightarrow> (string list \<Rightarrow> string) \<Rightarrow> string \<Rightarrow> exn + geometry option" where
  "get_polygon_from_api requests_get loads ee_Geometry selectbox appid =
     bind (list_polygons_api requests_get loads appid) (\<lambda>polygons.
     bind (py_iter polygons) (\<lambda>ps.
     bind (map_exn polygon_label ps) (\<lambda>names.
     let choice = selectbox (''--None--'' # names) in
     if choice \<noteq> ''--None--'' then
       bind (index_of names choice) (\<lambda>idx.
       bind (getitem_int polygons idx) (\<lambda>p.
       bind (getitem_str p ''geo_json'') (\<lambda>gj.
       bind (getitem_str gj ''geometry'') (\<lambda>geom.
       bind (ee_Geometry geom) (\<lambda>g. Inr (Some g))))))
     else Inr None)))"

text \<open>\<open>get_custom_geometry\<close> of app3.py. The bare \<open>except\<close> of the first branch catches
  everything; the second branch has no handler. \<open>option\<close> is the radio button.\<close>

definition get_custom_geometry_app3 ::
  "(string \<Rightarrow> exn + json) \<Rightarrow> (json \<Rightarrow> exn + geometry) \<Rightarrow>
   (string \<Rightarrow> string \<Rightarrow> exn + response) \<Rightarrow> (string list \<Rightarrow> string) \<Rightarrow>
   string \<Rightarrow> string \<Rightarrow> string \<Rightarrow> notice list \<times> (exn + geometry)" where
  "get_custom_geometry_app3 loads ee_Geometry requests_get selectbox appid option geojson_str =
     (let ui = [Sidebar_markdown ''## AOI Selection''] in
      if option = ''Custom GeoJSON'' then
        if geojson_str \<noteq> [] then
          (case try_geojson_app3 loads ee_Geometry geojson_str of
             Inr g \<Rightarrow> (ui, Inr g)
           | Inl e \<Rightarrow> (ui @ [Sidebar_error ''Invalid GeoJSON input.''], Inr get_default_geometry))
        else (ui, Inr get_default_geometry)
      else if option = ''Saved Polygon'' \<and> appid \<noteq> [] then
        (case get_polygon_from_api requests_get loads ee_Geometry selectbox appid of
           Inl e \<Rightarrow> (ui, Inl e)
         | Inr (Some geom) \<Rightarrow> (ui, Inr geom)
         | Inr None \<Rightarrow>
             (ui @ [Sidebar_info ''No saved polygon selected, using default.''],
              Inr get_default_geometry))
      else (ui, Inr get_default_geometry))"

text \<open>
  A geometry constructor for the evaluations. It looks at the shape of the dictionary
  only: a \<open>type\<close> tag and \<open>coordinates\<close>, and for a polygon rings of number pairs. It
  does not look at how many positions a ring has or whether it is closed.
\<close>

fun position_of :: "json \<Rightarrow> (real \<times> real) option" where
  "position_of (JList [JNum x, JNum y]) = Some (x, y)"
| "position_of j = None"

fun ring_of :: "json \<Rightarrow> (real \<times> real) list option" where
  "ring_of (JList ps) = those (map position_of ps)"
| "ring_of j = None"

fun rings_of :: "json \<Rightarrow> (real \<times> real) list list option" where
  "rings_of (JList rs) = those (map ring_of rs)"
| "rings_of j = None"

fun geometry_of_shape :: "json \<Rightarrow> exn + geometry" where
  "geometry_of_shape (JDict kvs) =
     (case (map_of kvs ''type'', map_of kvs ''coordinates'') of
        (Some (JStr t), Some c) \<Rightarrow>
          (if t = ''Polygon'' then
             (case rings_of c of
                None \<Rightarrow> Inl (EEException ''Invalid GeoJSON geometry.'')
              | Some rs \<Rightarrow> Inr (Polygon rs))
           else Inr (Other_geometry (JDict kvs)))
      | other \<Rightarrow> Inl (EEException ''Invalid GeoJSON geometry.''))"
| "geometry_of_shape j = Inl (EEException ''Invalid GeoJSON geometry.'')"

text \<open>The ring invariant of the specification's data model: at least four positions,
  the first equal to the last.\<close>

definition ring_closed_min4 :: "(real \<times> real) list \<Rightarrow> bool" where
  "ring_closed_min4 ring = (4 \<le> length ring \<and> hd ring = last ring)"

section \<open>Image collection query\<close>















section \<open>Inputs for the evaluations\<close>

text \<open>Two pasted texts for the evaluations, with the value \<open>json.loads\<close> gives for each:
  a polygon whose only ring has three positions and is not closed, and a closed square.\<close>

definition open_ring_text :: string where
  \<open>open_ring_text = ''{"type":"Polygon","coordinates":[[[0,0],[1,0],[1,1]]]}''\<close>

definition open_ring_json :: json where
  "open_ring_json = JDict [(''type'', JStr ''Polygon''),
     (''coordinates'', JList [JList [JList [JNum 0, JNum 0], JList [JNum 1, JNum 0],
                                      JList [JNum 1, JNum 1]]])]"

definition square_text :: string where
  \<open>square_text = ''{"geometry":{"type":"Polygon","coordinates":[[[0,0],[1,0],[1,1],[0,0]]]}}''\<close>

definition square_json :: json where
  "square_json = JDict [(''geometry'', JDict [(''type'', JStr ''Polygon''),
     (''coordinates'', JList [JList [JList [JNum 0, JNum 0], JList [JNum 1, JNum 0],
                                      JList [JNum 1, JNum 1], JList [JNum 0, JNum 0]]])])]"

definition pasted_texts :: "string \<Rightarrow> exn + json" where
  "pasted_texts = loads_table [(open_ring_text, open_ring_json), (square_text, square_json)]"

text \<open>Three answers of the polygon service for the evaluations: a refused key, a host
  that cannot be reached, and a body that is not JSON.\<close>

definition service_unauthorized :: "string \<Rightarrow> string \<Rightarrow> exn + response" where
  "service_unauthorized url appid = Inr \<lparr>status_code = 401, content = ''Unauthorized''\<rparr>"

definition service_unreachable :: "string \<Rightarrow> string \<Rightarrow> exn + response" where
  "service_unreachable url appid = Inl ConnectionError"

definition service_garbled :: "string \<Rightarrow> string \<Rightarrow> exn + response" where
  "service_garbled url appid = Inr \<lparr>status_code = 200, content = ''<html>''\<rparr>"

definition service_empty_list :: "string \<Rightarrow> string \<Rightarrow> exn + response" where
  "service_empty_list url appid = Inr \<lparr>status_code = 200, content = ''[]''\<rparr>"

definition pick_none :: "string list \<Rightarrow> string" where
  "pick_none options = ''--None--''"

section \<open>Properties of the index functions\<close>

subsection \<open>Selecting from a normalized image and from an image with added bands\<close>

lemma map_of_divide_const:
  "map_of (divide_const img c) n = map_option (\<lambda>b p. b p / c) (map_of img n)"
  by (induction img) (auto simp: divide_const_def)

lemma select_normalize:
  "select im n = Inr b \<Longrightarrow> select (normalize im) n = Inr (\<lambda>p. b p / 10000)"
  by (auto simp: select_def normalize_def map_of_divide_const split: option.splits)

lemma select_Inr_iff: "(\<exists>b. select img n = Inr b) \<longleftrightarrow> n \<in> set (band_names img)"
  by (auto simp: select_def band_names_def map_of_eq_None_iff split: option.splits)
   (metis map_of_eq_None_iff not_Some_eq)+

lemma add_fai_mci_turbidity_eq:
  assumes "select im ''B4'' = Inr b4" "select im ''B5'' = Inr b5" "select im ''B6'' = Inr b6"
    "select im ''B8'' = Inr b8" "select im ''B11'' = Inr b11"
  shows "add_fai_mci_turbidity ow cd im = Inr (addBands ow im
     [(''FAI'', \<lambda>p. b8 p / 10000 - (b4 p / 10000 + (b11 p / 10000 - b4 p / 10000) * (842 - 665) / (1610 - 665))),
      (''MCI'', \<lambda>p. b5 p / 10000 - b4 p / 10000 - (b6 p / 10000 - b4 p / 10000) * cd (705 - 665) (740 - 665)),
      (''Turbidity'', \<lambda>p. (b11 p / 10000) / (b4 p / 10000))])"
  using assms
  by (simp add: add_fai_mci_turbidity_def Let_def bind_def select_normalize
      add_def subtract_def multiply_def divide_by_def divide_band_def rename_def mci_expression_def)

lemma addBands_fresh3:
  assumes "a \<notin> set (band_names im)" "b \<notin> set (band_names im)" "c \<notin> set (band_names im)"
    "a \<noteq> b" "a \<noteq> c" "b \<noteq> c"
  shows "addBands ow im [(a, x), (b, y), (c, z)] = im @ [(a, x), (b, y), (c, z)]"
  using assms by (simp add: addBands_def add_band_def band_names_def)

lemma band_names_replace_band [simp]: "band_names (replace_band img nb) = band_names img"
  by (induction img) (auto simp: replace_band_def band_names_def)

lemma map_of_replace_band_other:
  "m \<noteq> fst nb \<Longrightarrow> map_of (replace_band img nb) m = map_of img m"
  by (induction img) (auto simp: replace_band_def)

lemma map_of_replace_band_same:
  "fst nb \<in> set (band_names img) \<Longrightarrow> map_of (replace_band img nb) (fst nb) = Some (snd nb)"
proof (induction img)
  case Nil
  then show ?case by (simp add: band_names_def)
next
  case (Cons a img)
  show ?case
  proof (cases "fst a = fst nb")
    case True
    then show ?thesis by (cases nb) (simp add: replace_band_def split_beta)
  next
    case False
    with Cons.prems have "fst nb \<in> set (band_names img)" by (auto simp: band_names_def)
    from Cons.IH [OF this] False show ?thesis
      by (cases a) (simp add: replace_band_def)
  qed
qed

lemma map_add_present:
  "m \<in> set (band_names img) \<Longrightarrow> (f ++ map_of img) m = map_of img m"
  by (auto simp: band_names_def map_add_def map_of_eq_None_iff split: option.splits)

lemma map_add_absent:
  "m \<notin> set (band_names img) \<Longrightarrow> (f ++ map_of img) m = f m"
proof -
  assume "m \<notin> set (band_names img)"
  then have "map_of img m = None"
    by (simp add: band_names_def map_of_eq_None_iff)
  then show ?thesis by (simp add: map_add_def)
qed

lemma map_of_add_band_present:
  "m \<in> set (band_names img) \<Longrightarrow>
   map_of (add_band ow img nb) m = (if ow \<and> m = fst nb then Some (snd nb) else map_of img m)"
  by (auto simp: add_band_def map_of_replace_band_same map_of_replace_band_other
      map_add_present)

lemma map_of_add_band_absent:
  "fst nb \<notin> set (band_names img) \<Longrightarrow> map_of (add_band ow img nb) (fst nb) = Some (snd nb)"
  by (simp add: add_band_def map_add_absent)

lemma band_names_add_band_mono:
  "m \<in> set (band_names img) \<Longrightarrow> m \<in> set (band_names (add_band ow img nb))"
  by (simp add: add_band_def) (simp add: band_names_def)

lemma name_in_add_band: "fst nb \<in> set (band_names (add_band ow img nb))"
  by (auto simp: add_band_def) (auto simp: band_names_def)

lemma band_names_addBands_mono:
  "m \<in> set (band_names img) \<Longrightarrow> m \<in> set (band_names (addBands ow img src))"
  by (induction src arbitrary: img) (auto simp: addBands_def band_names_add_band_mono)

lemma src_names_in_addBands:
  "m \<in> fst ` set src \<Longrightarrow> m \<in> set (band_names (addBands ow img src))"
proof (induction src arbitrary: img)
  case Nil
  then show ?case by simp
next
  case (Cons nb src)
  show ?case
  proof (cases "m = fst nb")
    case True
    then have "m \<in> set (band_names (add_band ow img nb))" by (simp add: name_in_add_band)
    then show ?thesis
      using band_names_addBands_mono [of m "add_band ow img nb" ow src]
      by (simp add: addBands_def)
  next
    case False
    with Cons.prems have "m \<in> fst ` set src" by auto
    from Cons.IH [OF this] show ?thesis by (simp add: addBands_def)
  qed
qed

lemma map_of_addBands_other:
  "n \<notin> fst ` set src \<Longrightarrow> n \<in> set (band_names img) \<Longrightarrow>
   map_of (addBands ow img src) n = map_of img n"
proof (induction src arbitrary: img)
  case Nil
  then show ?case by (simp add: addBands_def)
next
  case (Cons nb src)
  from Cons.prems have ne: "n \<noteq> fst nb" and rest: "n \<notin> fst ` set src" by auto
  have "n \<in> set (band_names (add_band ow img nb))"
    using Cons.prems(2) by (rule band_names_add_band_mono)
  from Cons.IH [OF rest this] have
    "map_of (addBands ow (add_band ow img nb) src) n = map_of (add_band ow img nb) n" .
  also have "\<dots> = map_of img n"
    using ne Cons.prems(2) by (simp add: map_of_add_band_present)
  finally show ?case by (simp add: addBands_def)
qed

lemma map_of_addBands_keep:
  "n \<in> set (band_names img) \<Longrightarrow> map_of (addBands False img src) n = map_of img n"
proof (induction src arbitrary: img)
  case Nil
  then show ?case by (simp add: addBands_def)
next
  case (Cons nb src)
  have "n \<in> set (band_names (add_band False img nb))"
    using Cons.prems by (rule band_names_add_band_mono)
  from Cons.IH [OF this] Cons.prems show ?case
    by (simp add: addBands_def map_of_add_band_present)
qed

lemma map_of_add_band_overwrite:
  "map_of (add_band True img nb) (fst nb) = Some (snd nb)"
  by (cases "fst nb \<in> set (band_names img)")
    (simp_all add: map_of_add_band_present map_of_add_band_absent)

lemma map_of_addBands_overwrite:
  "distinct (map fst src) \<Longrightarrow> (n, b) \<in> set src \<Longrightarrow>
   map_of (addBands True img src) n = Some b"
proof (induction src arbitrary: img)
  case Nil
  then show ?case by simp
next
  case (Cons nb src)
  show ?case
  proof (cases "nb = (n, b)")
    case True
    with Cons.prems(1) have "n \<notin> fst ` set src" by auto
    moreover have "n \<in> set (band_names (add_band True img nb))"
      using True name_in_add_band [of nb True img] by simp
    ultimately have "map_of (addBands True (add_band True img nb) src) n
        = map_of (add_band True img nb) n"
      by (rule map_of_addBands_other)
    with True show ?thesis
      using map_of_add_band_overwrite [of img nb] by (simp add: addBands_def)
  next
    case False
    with Cons.prems have "(n, b) \<in> set src" "distinct (map fst src)" by auto
    from Cons.IH [OF this(2) this(1)] show ?thesis by (simp add: addBands_def)
  qed
qed

lemma select_cong: "map_of r n = map_of r' n \<Longrightarrow> select r n = select r' n"
  by (simp add: select_def)

lemma select_present:
  assumes "n \<in> set (band_names im)"
  obtains b where "select im n = Inr b"
  using assms select_Inr_iff [of im n] by blast

lemma raw_present:
  assumes "set raw_bands \<subseteq> set (band_names im)"
  obtains b4 b5 b6 b8 b11 where
    "select im ''B4'' = Inr b4" "select im ''B5'' = Inr b5" "select im ''B6'' = Inr b6"
    "select im ''B8'' = Inr b8" "select im ''B11'' = Inr b11"
proof -
  from assms have "''B4'' \<in> set (band_names im)" by (simp add: raw_bands_def)
  then obtain b4 where 1: "select im ''B4'' = Inr b4" by (rule select_present)
  from assms have "''B5'' \<in> set (band_names im)" by (simp add: raw_bands_def)
  then obtain b5 where 2: "select im ''B5'' = Inr b5" by (rule select_present)
  from assms have "''B6'' \<in> set (band_names im)" by (simp add: raw_bands_def)
  then obtain b6 where 3: "select im ''B6'' = Inr b6" by (rule select_present)
  from assms have "''B8'' \<in> set (band_names im)" by (simp add: raw_bands_def)
  then obtain b8 where 4: "select im ''B8'' = Inr b8" by (rule select_present)
  from assms have "''B11'' \<in> set (band_names im)" by (simp add: raw_bands_def)
  then obtain b11 where 5: "select im ''B11'' = Inr b11" by (rule select_present)
  from 1 2 3 4 5 show ?thesis by (rule that)
qed

lemma select_addBands_raw:
  assumes "n \<in> set raw_bands" "n \<in> set (band_names im)"
  shows "select (addBands ow im [(''FAI'', x), (''MCI'', y), (''Turbidity'', z)]) n = select im n"
proof (rule select_cong, rule map_of_addBands_other)
  show "n \<notin> fst ` set [(''FAI'', x), (''MCI'', y), (''Turbidity'', z)]"
    using assms(1) by (auto simp: raw_bands_def)
  show "n \<in> set (band_names im)" by fact
qed

lemma select_append_new:
  "n \<notin> set (band_names im) \<Longrightarrow> select (im @ extra) n = select extra n"
  by (simp add: select_def map_add_absent)

lemma select_append_old:
  "n \<in> set (band_names im) \<Longrightarrow> select (im @ extra) n = select im n"
  by (simp add: select_def map_add_present)

lemma indices_general:
  assumes sel: "select im ''B4'' = Inr b4" "select im ''B5'' = Inr b5" "select im ''B6'' = Inr b6"
      "select im ''B8'' = Inr b8" "select im ''B11'' = Inr b11"
    and fresh: "set derived_bands \<inter> set (band_names im) = {}"
  shows "\<exists>r. add_fai_mci_turbidity ow cd im = Inr r
      \<and> select r ''FAI'' = Inr (\<lambda>p. b8 p / 10000
            - (b4 p / 10000 + (b11 p / 10000 - b4 p / 10000) * (842 - 665) / (1610 - 665)))
      \<and> select r ''MCI'' = Inr (\<lambda>p. b5 p / 10000 - b4 p / 10000
            - (b6 p / 10000 - b4 p / 10000) * cd (705 - 665) (740 - 665))
      \<and> select r ''Turbidity'' = Inr (\<lambda>p. (b11 p / 10000) / (b4 p / 10000))"
proof -
  from fresh have nf: "''FAI'' \<notin> set (band_names im)" "''MCI'' \<notin> set (band_names im)"
    "''Turbidity'' \<notin> set (band_names im)"
    by (auto simp: derived_bands_def)
  note eq = add_fai_mci_turbidity_eq [OF sel, where ow = ow and cd = cd]
  have app: "addBands ow im [(''FAI'', x), (''MCI'', y), (''Turbidity'', z)]
      = im @ [(''FAI'', x), (''MCI'', y), (''Turbidity'', z)]" for x y z :: "'a band"
    using nf by (intro addBands_fresh3) simp_all
  show ?thesis
    unfolding eq app using nf
    by (simp add: select_append_new) (simp add: select_def)
qed

lemma example_selects:
  "select example_image ''B4'' = Inr (\<lambda>p. 2000)"
  "select example_image ''B5'' = Inr (\<lambda>p. 2500)"
  "select example_image ''B6'' = Inr (\<lambda>p. 3200)"
  "select example_image ''B8'' = Inr (\<lambda>p. 4000)"
  "select example_image ''B11'' = Inr (\<lambda>p. 3000)"
  by (simp_all add: example_image_def select_def)

lemma example_fresh: "set derived_bands \<inter> set (band_names example_image) = {}"
  by (simp add: derived_bands_def band_names_def example_image_def)

lemma example_raw: "set raw_bands \<subseteq> set (band_names example_image)"
  by (simp add: raw_bands_def band_names_def example_image_def)

lemma example_values:
  "\<exists>r. add_fai_mci_turbidity ow cd example_image = Inr r
      \<and> select r ''FAI'' = Inr (\<lambda>p. 571 / 3150)
      \<and> select r ''MCI'' = Inr (\<lambda>p. 0.05 - 0.12 * cd 40 75)
      \<and> select r ''Turbidity'' = Inr (\<lambda>p. 1.5)"
  using indices_general [OF example_selects example_fresh, where ow = ow and cd = cd]
  by auto

lemma addBands_twice: "addBands ow (addBands ow im xs) ys = addBands ow im (xs @ ys)"
  by (simp add: addBands_def)

lemma add_fai_mci_eq:
  assumes "select im ''B4'' = Inr b4" "select im ''B5'' = Inr b5" "select im ''B6'' = Inr b6"
    "select im ''B8'' = Inr b8" "select im ''B11'' = Inr b11"
  shows "add_fai_mci ow cd im = Inr (addBands ow im
     [(''FAI'', \<lambda>p. b8 p - (b4 p + (b11 p - b4 p) * (842 - 665) / (1610 - 665))),
      (''MCI'', \<lambda>p. b5 p - b4 p - (b6 p - b4 p) * cd (705 - 665) (740 - 665))])"
  using assms
  by (simp add: add_fai_mci_def Let_def bind_def addBands_twice
      add_def subtract_def multiply_def divide_by_def rename_def mci_expression_def)

lemma select_addBands_other:
  assumes "n \<notin> fst ` set D" "n \<in> set (band_names im)"
  shows "select (addBands ow im D) n = select im n"
  using assms by (intro select_cong map_of_addBands_other)

lemma select_addBands_repeat:
  assumes "distinct (map fst D)" "n \<in> fst ` set D"
  shows "select (addBands ow (addBands ow im D) D) n = select (addBands ow im D) n"
proof (rule select_cong, cases ow)
  case True
  from assms(2) obtain b where b: "(n, b) \<in> set D" by auto
  have "map_of (addBands True (addBands True im D) D) n = Some b"
    using assms(1) b by (rule map_of_addBands_overwrite)
  moreover have "map_of (addBands True im D) n = Some b"
    using assms(1) b by (rule map_of_addBands_overwrite)
  ultimately show "map_of (addBands ow (addBands ow im D) D) n = map_of (addBands ow im D) n"
    using True by simp
next
  case False
  from assms(2) have "n \<in> set (band_names (addBands False im D))"
    by (rule src_names_in_addBands)
  then have "map_of (addBands False (addBands False im D) D) n = map_of (addBands False im D) n"
    by (rule map_of_addBands_keep)
  then show "map_of (addBands ow (addBands ow im D) D) n = map_of (addBands ow im D) n"
    using False by simp
qed

lemma recompute_app:
  assumes "set raw_bands \<subseteq> set (band_names im)"
  shows "\<exists>r1 r2. add_fai_mci ow cd im = Inr r1 \<and> add_fai_mci ow cd r1 = Inr r2
           \<and> (\<forall>n \<in> set raw_bands. select r1 n = select im n)
           \<and> select r2 ''FAI'' = select r1 ''FAI'' \<and> select r2 ''MCI'' = select r1 ''MCI''"
proof -
  from assms obtain b4 b5 b6 b8 b11 where sel:
    "select im ''B4'' = Inr b4" "select im ''B5'' = Inr b5" "select im ''B6'' = Inr b6"
    "select im ''B8'' = Inr b8" "select im ''B11'' = Inr b11"
    by (rule raw_present)
  define D where "D = [(''FAI'', \<lambda>p. b8 p - (b4 p + (b11 p - b4 p) * (842 - 665) / (1610 - 665))),
      (''MCI'', \<lambda>p. b5 p - b4 p - (b6 p - b4 p) * cd (705 - 665) (740 - 665))]"
  define r1 where "r1 = addBands ow im D"
  have first: "add_fai_mci ow cd im = Inr r1"
    unfolding r1_def D_def using sel by (rule add_fai_mci_eq)
  have raw: "select r1 n = select im n" if "n \<in> set raw_bands" for n
  proof -
    from that have "n \<notin> fst ` set D" by (auto simp: D_def raw_bands_def)
    moreover from that assms have "n \<in> set (band_names im)" by blast
    ultimately show ?thesis unfolding r1_def by (rule select_addBands_other)
  qed
  have sel1: "select r1 ''B4'' = Inr b4" "select r1 ''B5'' = Inr b5" "select r1 ''B6'' = Inr b6"
    "select r1 ''B8'' = Inr b8" "select r1 ''B11'' = Inr b11"
    using sel by (simp_all add: raw raw_bands_def)
  have second: "add_fai_mci ow cd r1 = Inr (addBands ow r1 D)"
    unfolding D_def using sel1 by (rule add_fai_mci_eq)
  have d: "distinct (map fst D)" by (simp add: D_def)
  have "select (addBands ow r1 D) ''FAI'' = select r1 ''FAI''"
    unfolding r1_def using d by (rule select_addBands_repeat) (simp add: D_def)
  moreover have "select (addBands ow r1 D) ''MCI'' = select r1 ''MCI''"
    unfolding r1_def using d by (rule select_addBands_repeat) (simp add: D_def)
  ultimately show ?thesis using first second raw by blast
qed

lemma add_fai_mci_general:
  assumes sel: "select im ''B4'' = Inr b4" "select im ''B5'' = Inr b5" "select im ''B6'' = Inr b6"
      "select im ''B8'' = Inr b8" "select im ''B11'' = Inr b11"
    and fresh: "set derived_bands \<inter> set (band_names im) = {}"
  shows "\<exists>r. add_fai_mci ow cd im = Inr r
      \<and> band_names r = band_names im @ [''FAI'', ''MCI'']
      \<and> select r ''Turbidity'' = Inl (EEException ''Turbidity'')"
proof -
  from fresh have nf: "''FAI'' \<notin> set (band_names im)" "''MCI'' \<notin> set (band_names im)"
    "''Turbidity'' \<notin> set (band_names im)"
    by (auto simp: derived_bands_def)
  have app: "addBands ow im [(''FAI'', x), (''MCI'', y)] = im @ [(''FAI'', x), (''MCI'', y)]"
    for x y :: "'a band"
    using nf by (simp add: addBands_def add_band_def band_names_def)
  have "select (im @ [(''FAI'', x), (''MCI'', y)]) ''Turbidity''
      = Inl (EEException ''Turbidity'')" for x y :: "'a band"
    using select_append_new [OF nf(3), of "[(''FAI'', x), (''MCI'', y)]"]
    by (simp add: select_def)
  then show ?thesis
    unfolding add_fai_mci_eq [OF sel, where ow = ow and cd = cd] app
    by (simp add: band_names_def)
qed

lemma first_script_values:
  "band_value (add_fai_mci ow cd example_image) ''FAI'' p = Inr (114200 / 63)"
  "band_value (add_fai_mci ow cd example_image) ''MCI'' p = Inr (500 - 1200 * cd 40 75)"
  "band_value (add_fai_mci ow cd example_image) ''Turbidity'' p = Inl (EEException ''Turbidity'')"
proof -
  have app: "addBands ow example_image [(''FAI'', x), (''MCI'', y)]
      = example_image @ [(''FAI'', x), (''MCI'', y)]" for x y :: "nat band"
    by (simp add: addBands_def add_band_def band_names_def example_image_def)
  note eq = add_fai_mci_eq [OF example_selects, where ow = ow and cd = cd]
  show "band_value (add_fai_mci ow cd example_image) ''FAI'' p = Inr (114200 / 63)"
    unfolding eq app by (simp add: band_value_def bind_def select_def example_image_def)
  show "band_value (add_fai_mci ow cd example_image) ''MCI'' p = Inr (500 - 1200 * cd 40 75)"
    unfolding eq app by (simp add: band_value_def bind_def select_def example_image_def)
  show "band_value (add_fai_mci ow cd example_image) ''Turbidity'' p
      = Inl (EEException ''Turbidity'')"
    unfolding eq app by (simp add: band_value_def bind_def select_def example_image_def)
qed

lemma floor_div_factor: "floor_div 40 75 = 0"
  by (simp add: floor_div_def)

lemma exact_div_factor: "exact_div 40 75 = 40 / 75"
  by (simp add: exact_div_def)

lemma example_mci_value:
  "band_value (add_fai_mci_turbidity ow cd example_image) ''MCI'' p = Inr (0.05 - 0.12 * cd 40 75)"
proof -
  from example_values [of ow cd] obtain r where
    "add_fai_mci_turbidity ow cd example_image = Inr r"
    "select r ''MCI'' = Inr (\<lambda>p. 0.05 - 0.12 * cd 40 75)"
    by blast
  then show ?thesis by (simp add: band_value_def bind_def)
qed

text \<open>
  C1. On every raster that has the five raw bands (and does not yet use the three index
  names), \<open>add_fai_mci_turbidity\<close> of app2.py and app3.py returns a raster; the bands it
  computes from are the raw bands divided by 10000; and the bands FAI, MCI and Turbidity
  of the result are the band-algebra formulas on those quotients, the factor of the MCI
  formula being what the backend gives for the quotient of the constants 40 and 75. On
  the raster with B4 = 2000, B8 = 4000, B11 = 3000, B5 = 2500, B6 = 3200 this gives
  FAI = 571/3150, which is 0.1813 to four decimals, Turbidity = 1.5 and
  MCI = 0.05 - 0.12 times that factor, which is -0.014 when the factor is 40/75. The
  first version of the script, \<open>add_fai_mci\<close> of app.py, adds the two bands FAI and MCI
  and no band Turbidity.
\<close>

theorem indices_from_normalized_bands:
  assumes "select im ''B4'' = Inr b4" "select im ''B5'' = Inr b5" "select im ''B6'' = Inr b6"
      "select im ''B8'' = Inr b8" "select im ''B11'' = Inr b11"
    and "set derived_bands \<inter> set (band_names im) = {}"
  shows "(\<forall>n b. select im n = Inr b \<longrightarrow> select (normalize im) n = Inr (\<lambda>p. b p / 10000))
    \<and> (\<exists>r. add_fai_mci_turbidity ow cd im = Inr r
      \<and> select r ''FAI'' = Inr (\<lambda>p. b8 p / 10000
            - (b4 p / 10000 + (b11 p / 10000 - b4 p / 10000) * (842 - 665) / (1610 - 665)))
      \<and> select r ''MCI'' = Inr (\<lambda>p. b5 p / 10000 - b4 p / 10000
            - (b6 p / 10000 - b4 p / 10000) * cd (705 - 665) (740 - 665))
      \<and> select r ''Turbidity'' = Inr (\<lambda>p. (b11 p / 10000) / (b4 p / 10000)))
    \<and> (\<exists>r. add_fai_mci_turbidity ow cd example_image = Inr r
      \<and> select r ''FAI'' = Inr (\<lambda>p. 571 / 3150)
      \<and> \<bar>571 / 3150 - 0.1813\<bar> < (0.00005 :: real)
      \<and> select r ''MCI'' = Inr (\<lambda>p. 0.05 - 0.12 * cd 40 75)
      \<and> (cd 40 75 = 40 / 75 \<longrightarrow> select r ''MCI'' = Inr (\<lambda>p. - 0.014))
      \<and> select r ''Turbidity'' = Inr (\<lambda>p. 1.5))
    \<and> (\<exists>r. add_fai_mci ow cd im = Inr r
      \<and> band_names r = band_names im @ [''FAI'', ''MCI'']
      \<and> select r ''Turbidity'' = Inl (EEException ''Turbidity''))"
proof (intro conjI)
  show "\<forall>n b. select im n = Inr b \<longrightarrow> select (normalize im) n = Inr (\<lambda>p. b p / 10000)"
    by (simp add: select_normalize)
  show "\<exists>r. add_fai_mci_turbidity ow cd im = Inr r
      \<and> select r ''FAI'' = Inr (\<lambda>p. b8 p / 10000
            - (b4 p / 10000 + (b11 p / 10000 - b4 p / 10000) * (842 - 665) / (1610 - 665)))
      \<and> select r ''MCI'' = Inr (\<lambda>p. b5 p / 10000 - b4 p / 10000
            - (b6 p / 10000 - b4 p / 10000) * cd (705 - 665) (740 - 665))
      \<and> select r ''Turbidity'' = Inr (\<lambda>p. (b11 p / 10000) / (b4 p / 10000))"
    using assms by (rule indices_general)
  show "\<exists>r. add_fai_mci_turbidity ow cd example_image = Inr r
      \<and> select r ''FAI'' = Inr (\<lambda>p. 571 / 3150)
      \<and> \<bar>571 / 3150 - 0.1813\<bar> < (0.00005 :: real)
      \<and> select r ''MCI'' = Inr (\<lambda>p. 0.05 - 0.12 * cd 40 75)
      \<and> (cd 40 75 = 40 / 75 \<longrightarrow> select r ''MCI'' = Inr (\<lambda>p. - 0.014))
      \<and> select r ''Turbidity'' = Inr (\<lambda>p. 1.5)"
  proof -
    from example_values [of ow cd] obtain r where r:
      "add_fai_mci_turbidity ow cd example_image = Inr r"
      "select r ''FAI'' = Inr (\<lambda>p. 571 / 3150)"
      "select r ''MCI'' = Inr (\<lambda>p. 0.05 - 0.12 * cd 40 75)"
      "select r ''Turbidity'' = Inr (\<lambda>p. 1.5)"
      by blast
    have approx: "\<bar>571 / 3150 - 0.1813\<bar> < (0.00005 :: real)" by simp
    have exact: "cd 40 75 = 40 / 75 \<longrightarrow> select r ''MCI'' = Inr (\<lambda>p. - 0.014)"
    proof
      assume h: "cd 40 75 = 40 / 75"
      show "select r ''MCI'' = Inr (\<lambda>p. - 0.014)"
        unfolding r(3) h by simp
    qed
    from r approx exact show ?thesis by blast
  qed
  show "\<exists>r. add_fai_mci ow cd im = Inr r
      \<and> band_names r = band_names im @ [''FAI'', ''MCI'']
      \<and> select r ''Turbidity'' = Inl (EEException ''Turbidity'')"
    using assms by (rule add_fai_mci_general)
qed

theorem indices_from_normalized_bands_witness:
  "select (normalize example_image) ''B8'' = Inr (\<lambda>p. 4000 / 10000)
   \<and> exact_div 40 75 = 40 / 75
   \<and> (\<exists>r. add_fai_mci_turbidity False exact_div example_image = Inr r
      \<and> select r ''FAI'' = Inr (\<lambda>p. 571 / 3150)
      \<and> select r ''MCI'' = Inr (\<lambda>p. - 0.014)
      \<and> select r ''Turbidity'' = Inr (\<lambda>p. 1.5))
   \<and> (\<exists>r. add_fai_mci False exact_div example_image = Inr r
      \<and> band_names r = band_names example_image @ [''FAI'', ''MCI''])"
proof -
  note t = indices_from_normalized_bands [OF example_selects example_fresh,
      where ow = False and cd = exact_div]
  from t example_selects(4)
  have 1: "select (normalize example_image) ''B8'' = Inr (\<lambda>p. 4000 / 10000)"
    by blast
  from t exact_div_factor
  have 2: "\<exists>r. add_fai_mci_turbidity False exact_div example_image = Inr r
      \<and> select r ''FAI'' = Inr (\<lambda>p. 571 / 3150)
      \<and> select r ''MCI'' = Inr (\<lambda>p. - 0.014)
      \<and> select r ''Turbidity'' = Inr (\<lambda>p. 1.5)"
    by blast
  from t have 3: "\<exists>r. add_fai_mci False exact_div example_image = Inr r
      \<and> band_names r = band_names example_image @ [''FAI'', ''MCI'']"
    by blast
  from 1 exact_div_factor 2 3 show ?thesis by blast
qed

text \<open>
  On the same raster \<open>add_fai_mci\<close> of app.py, which selects from the image as it comes,
  gives FAI = 114200/63 (about 1812.7) and has no band Turbidity; and with a backend
  whose division of two integers is integer division the factor of the MCI formula is 0
  and \<open>add_fai_mci_turbidity\<close> gives MCI = 0.05.
\<close>

theorem first_script_and_integer_division:
  "band_value (add_fai_mci False exact_div example_image) ''FAI'' 0 = Inr (114200 / 63)
   \<and> band_value (add_fai_mci False exact_div example_image) ''Turbidity'' 0
       = Inl (EEException ''Turbidity'')
   \<and> band_value (add_fai_mci_turbidity False floor_div example_image) ''MCI'' 0 = Inr 0.05"
  using first_script_values(1,3) [of False exact_div 0]
    example_mci_value [of False floor_div 0]
  by (simp add: floor_div_factor)

text \<open>
  C8. On every raster that has the five raw bands, \<open>add_fai_mci_turbidity\<close> returns a
  raster in which every band of the input, other than one already named FAI, MCI or
  Turbidity, is unchanged: the normalized copy is used for the computation only. When
  the input does not use those three names, the band names of the result are the
  input's followed by FAI, MCI, Turbidity, every band of the input is unchanged, and the
  result restricted to the input's band names is the input.
\<close>

theorem original_bands_unchanged:
  assumes "set raw_bands \<subseteq> set (band_names im)"
  shows "\<exists>r. add_fai_mci_turbidity ow cd im = Inr r
     \<and> (\<forall>n \<in> set (band_names im) - set derived_bands. select r n = select im n)
     \<and> (set derived_bands \<inter> set (band_names im) = {} \<longrightarrow>
          band_names r = band_names im @ derived_bands
        \<and> set (band_names r) = set (band_names im) \<union> set derived_bands
        \<and> (\<forall>n \<in> set (band_names im). select r n = select im n)
        \<and> restrict_to r (band_names im) = im)"
proof -
  from assms obtain b4 b5 b6 b8 b11 where sel:
    "select im ''B4'' = Inr b4" "select im ''B5'' = Inr b5" "select im ''B6'' = Inr b6"
    "select im ''B8'' = Inr b8" "select im ''B11'' = Inr b11"
    by (rule raw_present)
  define x where "x = (\<lambda>p. b8 p / 10000 - (b4 p / 10000 + (b11 p / 10000 - b4 p / 10000) * (842 - 665) / (1610 - 665)))"
  define y where "y = (\<lambda>p. b5 p / 10000 - b4 p / 10000 - (b6 p / 10000 - b4 p / 10000) * cd (705 - 665) (740 - 665))"
  define z where "z = (\<lambda>p. (b11 p / 10000) / (b4 p / 10000))"
  define r where "r = addBands ow im [(''FAI'', x), (''MCI'', y), (''Turbidity'', z)]"
  have res: "add_fai_mci_turbidity ow cd im = Inr r"
    unfolding r_def x_def y_def z_def using sel by (rule add_fai_mci_turbidity_eq)
  have other: "select r n = select im n" if "n \<in> set (band_names im) - set derived_bands" for n
  proof (rule select_cong, unfold r_def, rule map_of_addBands_other)
    show "n \<notin> fst ` set [(''FAI'', x), (''MCI'', y), (''Turbidity'', z)]"
      using that by (auto simp: derived_bands_def)
    show "n \<in> set (band_names im)" using that by simp
  qed
  have cond: "band_names r = band_names im @ derived_bands
        \<and> set (band_names r) = set (band_names im) \<union> set derived_bands
        \<and> (\<forall>n \<in> set (band_names im). select r n = select im n)
        \<and> restrict_to r (band_names im) = im"
    if fresh: "set derived_bands \<inter> set (band_names im) = {}"
  proof -
    from fresh have nf: "''FAI'' \<notin> set (band_names im)" "''MCI'' \<notin> set (band_names im)"
      "''Turbidity'' \<notin> set (band_names im)"
      by (auto simp: derived_bands_def)
    have app: "r = im @ [(''FAI'', x), (''MCI'', y), (''Turbidity'', z)]"
      unfolding r_def using nf by (intro addBands_fresh3) simp_all
    have 1: "band_names r = band_names im @ derived_bands"
      by (simp add: app band_names_def derived_bands_def)
    have 2: "set (band_names r) = set (band_names im) \<union> set derived_bands"
      by (simp add: 1)
    have 3: "\<forall>n \<in> set (band_names im). select r n = select im n"
      by (simp add: app select_append_old)
    have "filter (\<lambda>nb. fst nb \<in> set (band_names im)) im = im"
      by (simp add: band_names_def)
    then have 4: "restrict_to r (band_names im) = im"
      using nf by (simp add: app restrict_to_def)
    from 1 2 3 4 show ?thesis by blast
  qed
  from res other cond show ?thesis by blast
qed

theorem original_bands_unchanged_witness:
  "set raw_bands \<subseteq> set (band_names example_image)
   \<and> set derived_bands \<inter> set (band_names example_image) = {}
   \<and> (\<exists>r. add_fai_mci_turbidity False exact_div example_image = Inr r
        \<and> select r ''B4'' = select example_image ''B4''
        \<and> band_names r = [''B4'', ''B8'', ''B11'', ''B5'', ''B6'', ''FAI'', ''MCI'', ''Turbidity'']
        \<and> restrict_to r (band_names example_image) = example_image)"
proof -
  from original_bands_unchanged [OF example_raw, where ow = False and cd = exact_div] example_fresh
  obtain r where r: "add_fai_mci_turbidity False exact_div example_image = Inr r"
    "\<forall>n \<in> set (band_names example_image). select r n = select example_image n"
    "band_names r = band_names example_image @ derived_bands"
    "restrict_to r (band_names example_image) = example_image"
    by blast
  have "''B4'' \<in> set (band_names example_image)"
    by (simp add: band_names_def example_image_def)
  with r(2) have "select r ''B4'' = select example_image ''B4''" by blast
  moreover have "band_names example_image @ derived_bands
      = [''B4'', ''B8'', ''B11'', ''B5'', ''B6'', ''FAI'', ''MCI'', ''Turbidity'']"
    by (simp add: band_names_def example_image_def derived_bands_def)
  ultimately show ?thesis using r example_raw example_fresh by auto
qed

lemma recompute_turbidity:
  assumes "set raw_bands \<subseteq> set (band_names im)"
  shows "\<exists>r1 r2. add_fai_mci_turbidity ow cd im = Inr r1 \<and> add_fai_mci_turbidity ow cd r1 = Inr r2
           \<and> (\<forall>n \<in> set raw_bands. select r1 n = select im n)
           \<and> (\<forall>n \<in> set derived_bands. select r2 n = select r1 n)"
proof -
  from assms obtain b4 b5 b6 b8 b11 where sel:
    "select im ''B4'' = Inr b4" "select im ''B5'' = Inr b5" "select im ''B6'' = Inr b6"
    "select im ''B8'' = Inr b8" "select im ''B11'' = Inr b11"
    by (rule raw_present)
  define x where "x = (\<lambda>p. b8 p / 10000 - (b4 p / 10000 + (b11 p / 10000 - b4 p / 10000) * (842 - 665) / (1610 - 665)))"
  define y where "y = (\<lambda>p. b5 p / 10000 - b4 p / 10000 - (b6 p / 10000 - b4 p / 10000) * cd (705 - 665) (740 - 665))"
  define z where "z = (\<lambda>p. (b11 p / 10000) / (b4 p / 10000))"
  define r1 where "r1 = addBands ow im [(''FAI'', x), (''MCI'', y), (''Turbidity'', z)]"
  have first: "add_fai_mci_turbidity ow cd im = Inr r1"
    unfolding r1_def x_def y_def z_def using sel by (rule add_fai_mci_turbidity_eq)
  have raw: "select r1 n = select im n" if "n \<in> set raw_bands" for n
  proof -
    from that assms have "n \<in> set (band_names im)" by blast
    with that show ?thesis unfolding r1_def by (rule select_addBands_raw)
  qed
  have sel1: "select r1 ''B4'' = Inr b4" "select r1 ''B5'' = Inr b5" "select r1 ''B6'' = Inr b6"
    "select r1 ''B8'' = Inr b8" "select r1 ''B11'' = Inr b11"
    using sel by (simp_all add: raw raw_bands_def)
  have second: "add_fai_mci_turbidity ow cd r1 = Inr (addBands ow r1 [(''FAI'', x), (''MCI'', y), (''Turbidity'', z)])"
    unfolding x_def y_def z_def using sel1 by (rule add_fai_mci_turbidity_eq)
  have "select (addBands ow r1 [(''FAI'', x), (''MCI'', y), (''Turbidity'', z)]) n = select r1 n"
    if "n \<in> set derived_bands" for n
  proof -
    from that have "n \<in> fst ` set [(''FAI'', x), (''MCI'', y), (''Turbidity'', z)]"
      by (auto simp: derived_bands_def)
    then show ?thesis
      unfolding r1_def by (intro select_addBands_repeat) simp
  qed
  with first second raw show ?thesis by blast
qed

text \<open>
  C9. On every raster that has the five raw bands, whether or not it already carries
  index bands, \<open>add_fai_mci_turbidity\<close> can be applied and applied again to its result;
  the first application leaves the raw bands as they are, and the bands FAI, MCI and
  Turbidity after the second application are those after the first. This holds for
  either meaning of \<open>addBands\<close> on a name that is taken, and likewise for
  \<open>add_fai_mci\<close> of app.py with its two bands.
\<close>

theorem recompute_same_derived:
  assumes "set raw_bands \<subseteq> set (band_names im)"
  shows "(\<exists>r1 r2. add_fai_mci_turbidity ow cd im = Inr r1 \<and> add_fai_mci_turbidity ow cd r1 = Inr r2
           \<and> (\<forall>n \<in> set raw_bands. select r1 n = select im n)
           \<and> (\<forall>n \<in> set derived_bands. select r2 n = select r1 n))
       \<and> (\<exists>r1 r2. add_fai_mci ow cd im = Inr r1 \<and> add_fai_mci ow cd r1 = Inr r2
           \<and> (\<forall>n \<in> set raw_bands. select r1 n = select im n)
           \<and> select r2 ''FAI'' = select r1 ''FAI'' \<and> select r2 ''MCI'' = select r1 ''MCI'')"
  using recompute_turbidity [OF assms, where ow = ow and cd = cd]
    recompute_app [OF assms, where ow = ow and cd = cd] by blast

theorem recompute_same_derived_witness:
  "set raw_bands \<subseteq> set (band_names example_image)
   \<and> (\<exists>r1 r2. add_fai_mci_turbidity True exact_div example_image = Inr r1
        \<and> add_fai_mci_turbidity True exact_div r1 = Inr r2
        \<and> select r1 ''B4'' = select example_image ''B4''
        \<and> select r2 ''FAI'' = select r1 ''FAI''
        \<and> select r2 ''MCI'' = select r1 ''MCI''
        \<and> select r2 ''Turbidity'' = select r1 ''Turbidity'')"
proof -
  from recompute_same_derived [OF example_raw, where ow = True and cd = exact_div]
  have "\<exists>r1 r2. add_fai_mci_turbidity True exact_div example_image = Inr r1
      \<and> add_fai_mci_turbidity True exact_div r1 = Inr r2
      \<and> (\<forall>n \<in> set raw_bands. select r1 n = select example_image n)
      \<and> (\<forall>n \<in> set derived_bands. select r2 n = select r1 n)"
    by (rule conjunct1)
  then obtain r1 r2 where r: "add_fai_mci_turbidity True exact_div example_image = Inr r1"
    "add_fai_mci_turbidity True exact_div r1 = Inr r2"
    "\<forall>n \<in> set raw_bands. select r1 n = select example_image n"
    "\<forall>n \<in> set derived_bands. select r2 n = select r1 n"
    by blast
  from r(3) have "select r1 ''B4'' = select example_image ''B4''"
    by (simp add: raw_bands_def)
  moreover from r(4) have "select r2 ''FAI'' = select r1 ''FAI''"
    "select r2 ''MCI'' = select r1 ''MCI''" "select r2 ''Turbidity'' = select r1 ''Turbidity''"
    by (simp_all add: derived_bands_def)
  ultimately show ?thesis using r(1,2) example_raw by blast
qed

section \<open>Properties of the alert evaluation\<close>

text \<open>The loop when every mean and every threshold is there, when a threshold is
  missing, and its dependence on the backend.\<close>

lemma metrics_loop_ok:
  assumes "\<forall>k \<in> set keys. cmv k = Inr (v k)" "\<forall>k \<in> set keys. thresholds k = Some (t k)"
  shows "metrics_loop cmv thresholds keys ui alerts =
     (ui @ map (\<lambda>k. Sidebar_mean k (v k)) keys, Inr (alerts @ filter (\<lambda>k. v k > t k) keys))"
  using assms by (induction keys arbitrary: ui alerts) simp_all

lemma metrics_loop_missing:
  assumes "\<forall>j \<in> set pre. cmv j = Inr (v j)" "\<forall>j \<in> set pre. thresholds j \<noteq> None"
    "cmv k = Inr (v k)" "thresholds k = None"
  shows "metrics_loop cmv thresholds (pre @ k # post) ui alerts =
     (ui @ map (\<lambda>j. Sidebar_mean j (v j)) (pre @ [k]), Inl (KeyError k))"
  using assms by (induction pre arbitrary: ui alerts) auto

lemma metrics_loop_cong:
  assumes "\<forall>k \<in> set keys. cmv k = cmv' k"
  shows "metrics_loop cmv thresholds keys ui alerts = metrics_loop cmv' thresholds keys ui alerts"
  using assms by (induction keys arbitrary: ui alerts) (auto split: sum.splits option.splits)

lemma render_ok:
  assumes "\<forall>k \<in> set selected. cmv k = Inr (v k)" "\<forall>k \<in> set selected. thresholds k = Some (t k)"
  shows "render_sidebar_metrics selected cmv thresholds =
     (Sidebar_markdown ''## Water Quality Summary'' # map (\<lambda>k. Sidebar_mean k (v k)) selected
        @ [if filter (\<lambda>k. v k > t k) selected = []
           then Sidebar_success ''All metrics within safe limits''
           else Sidebar_alert (filter (\<lambda>k. v k > t k) selected)],
      Inr ())"
  by (simp add: render_sidebar_metrics_def metrics_loop_ok [OF assms])

lemma example_alerts:
  "render_sidebar_metrics layers
      (means_table [(''FAI'', 0.06), (''MCI'', 0.01), (''Turbidity'', 1.8)]) thresholds_main =
     ([Sidebar_markdown ''## Water Quality Summary'', Sidebar_mean ''FAI'' 0.06,
       Sidebar_mean ''MCI'' 0.01, Sidebar_mean ''Turbidity'' 1.8, Sidebar_alert [''FAI'']],
      Inr ())"
  by (simp add: render_sidebar_metrics_def layers_def means_table_def thresholds_main_def)

text \<open>
  C3. When the backend returns a mean for every selected index and every selected index
  has a threshold, \<open>render_sidebar_metrics\<close> raises nothing, and the names it reports
  are exactly the selected ones whose mean is strictly greater than their threshold, in
  the order of the selection (an empty list is reported as the success line). On the
  means FAI 0.06, MCI 0.01, Turbidity 1.8 with the thresholds of \<open>main\<close> the alert names
  FAI alone: Turbidity equals its threshold and MCI is below its own.
\<close>

theorem alerts_strictly_above_in_order:
  assumes "\<forall>k \<in> set selected. cmv k = Inr (v k)"
    and "\<forall>k \<in> set selected. thresholds k = Some (t k)"
  shows "render_sidebar_metrics selected cmv thresholds =
     (Sidebar_markdown ''## Water Quality Summary'' # map (\<lambda>k. Sidebar_mean k (v k)) selected
        @ [if filter (\<lambda>k. v k > t k) selected = []
           then Sidebar_success ''All metrics within safe limits''
           else Sidebar_alert (filter (\<lambda>k. v k > t k) selected)],
      Inr ())
   \<and> (\<forall>k. k \<in> set (filter (\<lambda>k. v k > t k) selected) \<longleftrightarrow> k \<in> set selected \<and> v k > t k)
   \<and> render_sidebar_metrics layers
        (means_table [(''FAI'', 0.06), (''MCI'', 0.01), (''Turbidity'', 1.8)]) thresholds_main =
      ([Sidebar_markdown ''## Water Quality Summary'', Sidebar_mean ''FAI'' 0.06,
        Sidebar_mean ''MCI'' 0.01, Sidebar_mean ''Turbidity'' 1.8, Sidebar_alert [''FAI'']],
       Inr ())"
  using render_ok [OF assms] example_alerts by simp

theorem alerts_strictly_above_in_order_witness:
  "render_sidebar_metrics [''Turbidity'', ''FAI'']
      (means_table [(''FAI'', 0.06), (''MCI'', 0.01), (''Turbidity'', 1.9)]) thresholds_main =
     ([Sidebar_markdown ''## Water Quality Summary'', Sidebar_mean ''Turbidity'' 1.9,
       Sidebar_mean ''FAI'' 0.06, Sidebar_alert [''Turbidity'', ''FAI'']],
      Inr ())"
proof -
  let ?v = "\<lambda>k. if k = ''FAI'' then 0.06 else (1.9 :: real)"
  let ?t = "\<lambda>k. if k = ''FAI'' then 0.05 else (1.8 :: real)"
  have 1: "\<forall>k \<in> set [''Turbidity'', ''FAI''].
      means_table [(''FAI'', 0.06), (''MCI'', 0.01), (''Turbidity'', 1.9)] k = Inr (?v k)"
    by (simp add: means_table_def)
  have 2: "\<forall>k \<in> set [''Turbidity'', ''FAI'']. thresholds_main k = Some (?t k)"
    by (simp add: thresholds_main_def)
  from alerts_strictly_above_in_order [OF 1 2] show ?thesis by simp
qed

text \<open>
  C7. Let the backend return a mean for every selected index. If some selected index
  has no entry in the thresholds, \<open>render_sidebar_metrics\<close> raises \<open>KeyError\<close> for the
  first such index, after the lines of the indices up to it and before any alert or
  success line: the index is not skipped. If every selected index has an entry, no
  exception is raised.
\<close>

theorem missing_threshold_raises:
  assumes "\<forall>j \<in> set selected. cmv j = Inr (v j)"
  shows "(\<forall>pre k post. selected = pre @ k # post \<and> (\<forall>j \<in> set pre. thresholds j \<noteq> None)
            \<and> thresholds k = None \<longrightarrow>
          render_sidebar_metrics selected cmv thresholds =
            (Sidebar_markdown ''## Water Quality Summary''
               # map (\<lambda>j. Sidebar_mean j (v j)) (pre @ [k]),
             Inl (KeyError k)))
     \<and> ((\<forall>j \<in> set selected. thresholds j \<noteq> None) \<longrightarrow>
          snd (render_sidebar_metrics selected cmv thresholds) = Inr ())"
proof (intro conjI allI impI)
  fix pre k post
  assume a: "selected = pre @ k # post \<and> (\<forall>j \<in> set pre. thresholds j \<noteq> None)
            \<and> thresholds k = None"
  with assms have "\<forall>j \<in> set pre. cmv j = Inr (v j)" "cmv k = Inr (v k)" by auto
  with a show "render_sidebar_metrics selected cmv thresholds =
            (Sidebar_markdown ''## Water Quality Summary''
               # map (\<lambda>j. Sidebar_mean j (v j)) (pre @ [k]),
             Inl (KeyError k))"
    by (simp add: render_sidebar_metrics_def metrics_loop_missing [where v = v])
next
  assume "\<forall>j \<in> set selected. thresholds j \<noteq> None"
  then have "\<forall>j \<in> set selected. thresholds j = Some (the (thresholds j))" by simp
  from render_ok [OF assms this]
  show "snd (render_sidebar_metrics selected cmv thresholds) = Inr ()" by simp
qed

theorem missing_threshold_raises_witness:
  "render_sidebar_metrics [''FAI'', ''NDWI'', ''MCI'']
      (means_table [(''FAI'', 0.06), (''NDWI'', 0.3), (''MCI'', 0.01)]) thresholds_main =
     ([Sidebar_markdown ''## Water Quality Summary'', Sidebar_mean ''FAI'' 0.06,
       Sidebar_mean ''NDWI'' 0.3],
      Inl (KeyError ''NDWI''))
   \<and> snd (render_sidebar_metrics [''FAI'', ''MCI'']
      (means_table [(''FAI'', 0.06), (''NDWI'', 0.3), (''MCI'', 0.01)]) thresholds_main) = Inr ()"
proof -
  let ?cmv = "means_table [(''FAI'', 0.06), (''NDWI'', 0.3), (''MCI'', 0.01)]"
  let ?v = "\<lambda>k. if k = ''FAI'' then 0.06 else if k = ''NDWI'' then 0.3 else (0.01 :: real)"
  have 1: "\<forall>j \<in> set [''FAI'', ''NDWI'', ''MCI'']. ?cmv j = Inr (?v j)"
    by (simp add: means_table_def)
  have 2: "\<forall>j \<in> set [''FAI'', ''MCI'']. ?cmv j = Inr (?v j)"
    by (simp add: means_table_def)
  have "thresholds_main ''FAI'' = Some 0.05" "thresholds_main ''NDWI'' = None"
    by (simp_all add: thresholds_main_def)
  then have "[''FAI'', ''NDWI'', ''MCI''] = [''FAI''] @ ''NDWI'' # [''MCI'']
      \<and> (\<forall>j \<in> set [''FAI'']. thresholds_main j \<noteq> None) \<and> thresholds_main ''NDWI'' = None"
    by (simp del: not_None_eq)
  with missing_threshold_raises [OF 1, of thresholds_main]
  have a: "render_sidebar_metrics [''FAI'', ''NDWI'', ''MCI''] ?cmv thresholds_main =
     (Sidebar_markdown ''## Water Quality Summary''
        # map (\<lambda>j. Sidebar_mean j (?v j)) ([''FAI''] @ [''NDWI'']),
      Inl (KeyError ''NDWI''))"
    by blast
  have "thresholds_main ''FAI'' = Some 0.05" "thresholds_main ''MCI'' = Some 0.02"
    by (simp_all add: thresholds_main_def)
  then have "\<forall>j \<in> set [''FAI'', ''MCI'']. thresholds_main j \<noteq> None"
    by (simp del: not_None_eq)
  with missing_threshold_raises [OF 2, of thresholds_main]
  have b: "snd (render_sidebar_metrics [''FAI'', ''MCI''] ?cmv thresholds_main) = Inr ()"
    by blast
  from a b show ?thesis by simp
qed

text \<open>
  C10. \<open>main\<close> passes to \<open>render_sidebar_metrics\<close> the layers whose box is checked, and
  the loop runs over that list only. Whatever the thresholds, the outcome does not
  depend on what the backend would return for a layer whose box is not checked; and
  with no box checked the summary is the success line, whatever the backend would
  return for any index.
\<close>

theorem only_selected_layers_evaluated:
  "((\<forall>l \<in> set layers. checkbox l \<longrightarrow> cmv l = cmv' l) \<longrightarrow>
      render_sidebar_metrics (filter checkbox layers) cmv thresholds
        = render_sidebar_metrics (filter checkbox layers) cmv' thresholds
      \<and> main_metrics checkbox cmv = main_metrics checkbox cmv')
   \<and> ((\<forall>l \<in> set layers. \<not> checkbox l) \<longrightarrow>
        render_sidebar_metrics (filter checkbox layers) cmv thresholds =
          ([Sidebar_markdown ''## Water Quality Summary'',
            Sidebar_success ''All metrics within safe limits''], Inr ())
      \<and> main_metrics checkbox cmv =
          ([Sidebar_markdown ''## Water Quality Summary'',
            Sidebar_success ''All metrics within safe limits''], Inr ()))"
proof (intro conjI impI)
  assume "\<forall>l \<in> set layers. checkbox l \<longrightarrow> cmv l = cmv' l"
  then have eq: "\<forall>k \<in> set (filter checkbox layers). cmv k = cmv' k" by simp
  show "render_sidebar_metrics (filter checkbox layers) cmv thresholds
        = render_sidebar_metrics (filter checkbox layers) cmv' thresholds"
    by (simp add: render_sidebar_metrics_def metrics_loop_cong [OF eq])
  show "main_metrics checkbox cmv = main_metrics checkbox cmv'"
    by (simp add: main_metrics_def render_sidebar_metrics_def metrics_loop_cong [OF eq])
next
  assume "\<forall>l \<in> set layers. \<not> checkbox l"
  then have none: "filter checkbox layers = []" by (simp add: filter_empty_conv)
  show "render_sidebar_metrics (filter checkbox layers) cmv thresholds =
          ([Sidebar_markdown ''## Water Quality Summary'',
            Sidebar_success ''All metrics within safe limits''], Inr ())"
    by (simp add: none render_sidebar_metrics_def)
  show "main_metrics checkbox cmv =
          ([Sidebar_markdown ''## Water Quality Summary'',
            Sidebar_success ''All metrics within safe limits''], Inr ())"
    by (simp add: main_metrics_def none render_sidebar_metrics_def)
qed

theorem only_selected_layers_evaluated_witness:
  "main_metrics (\<lambda>l. False) (means_table [(''FAI'', 9), (''MCI'', 9), (''Turbidity'', 9)]) =
     ([Sidebar_markdown ''## Water Quality Summary'',
       Sidebar_success ''All metrics within safe limits''], Inr ())
   \<and> main_metrics (\<lambda>l. l = ''MCI'') (means_table [(''FAI'', 9), (''MCI'', 0.01)])
     = main_metrics (\<lambda>l. l = ''MCI'') (means_table [(''MCI'', 0.01), (''Turbidity'', 7)])"
proof -
  have 1: "\<forall>l \<in> set layers. \<not> (\<lambda>l. False) l" by simp
  have 2: "\<forall>l \<in> set layers. (\<lambda>l. l = ''MCI'') l \<longrightarrow>
      means_table [(''FAI'', 9), (''MCI'', 0.01)] l
        = means_table [(''MCI'', 0.01), (''Turbidity'', 7)] l"
    by (simp add: means_table_def)
  from only_selected_layers_evaluated
    [of "\<lambda>l. False" "means_table [(''FAI'', 9), (''MCI'', 9), (''Turbidity'', 9)]"
        "means_table [(''FAI'', 9), (''MCI'', 9), (''Turbidity'', 9)]" thresholds_main] 1
  have a: "main_metrics (\<lambda>l. False) (means_table [(''FAI'', 9), (''MCI'', 9), (''Turbidity'', 9)]) =
     ([Sidebar_markdown ''## Water Quality Summary'',
       Sidebar_success ''All metrics within safe limits''], Inr ())"
    by blast
  from only_selected_layers_evaluated
    [of "\<lambda>l. l = ''MCI''" "means_table [(''FAI'', 9), (''MCI'', 0.01)]"
        "means_table [(''MCI'', 0.01), (''Turbidity'', 7)]" thresholds_main] 2
  have b: "main_metrics (\<lambda>l. l = ''MCI'') (means_table [(''FAI'', 9), (''MCI'', 0.01)])
     = main_metrics (\<lambda>l. l = ''MCI'') (means_table [(''MCI'', 0.01), (''Turbidity'', 7)])"
    by blast
  from a b show ?thesis by simp
qed

section \<open>Properties of the area-of-interest functions\<close>

lemma default_ring_facts:
  "length default_coords = 22"
  "hd default_coords = (77.6392446351248, 12.921051012051585)"
  "last default_coords = hd default_coords"
  by (simp_all add: default_coords_def)

lemma default_ring_distinct: "distinct (butlast default_coords)"
  by (simp add: default_coords_def)

lemma try_app2_unparsable: "loads s = Inl e \<Longrightarrow> try_geojson_app2 loads ctor s = Inl e"
  by (simp add: try_geojson_app2_def bind_def)

lemma try_app3_unparsable: "loads s = Inl e \<Longrightarrow> try_geojson_app3 loads ctor s = Inl e"
  by (simp add: try_geojson_app3_def bind_def)

lemma app2_custom_fail:
  "s \<noteq> [] \<Longrightarrow> try_geojson_app2 loads ctor s = Inl e \<Longrightarrow>
   get_custom_geometry_app2 loads ctor ''Custom GeoJSON'' s =
     ([Sidebar_markdown ''## AOI Selection'', Sidebar_error_exn ''Invalid GeoJSON: '' e],
      Inr get_default_geometry)"
  by (simp add: get_custom_geometry_app2_def)

lemma app2_custom_ok:
  "s \<noteq> [] \<Longrightarrow> try_geojson_app2 loads ctor s = Inr g \<Longrightarrow>
   get_custom_geometry_app2 loads ctor ''Custom GeoJSON'' s =
     ([Sidebar_markdown ''## AOI Selection''], Inr g)"
  by (simp add: get_custom_geometry_app2_def)

lemma app3_custom_fail:
  "s \<noteq> [] \<Longrightarrow> try_geojson_app3 loads ctor s = Inl e \<Longrightarrow>
   get_custom_geometry_app3 loads ctor rg sb appid ''Custom GeoJSON'' s =
     ([Sidebar_markdown ''## AOI Selection'', Sidebar_error ''Invalid GeoJSON input.''],
      Inr get_default_geometry)"
  by (simp add: get_custom_geometry_app3_def)

lemma app3_custom_ok:
  "s \<noteq> [] \<Longrightarrow> try_geojson_app3 loads ctor s = Inr g \<Longrightarrow>
   get_custom_geometry_app3 loads ctor rg sb appid ''Custom GeoJSON'' s =
     ([Sidebar_markdown ''## AOI Selection''], Inr g)"
  by (simp add: get_custom_geometry_app3_def)

lemma app2_empty:
  "get_custom_geometry_app2 loads ctor ''Custom GeoJSON'' [] =
     ([Sidebar_markdown ''## AOI Selection'', Sidebar_info ''Awaiting GeoJSON input...''],
      Inr get_default_geometry)"
  by (simp add: get_custom_geometry_app2_def)

lemma app3_empty:
  "get_custom_geometry_app3 loads ctor rg sb appid ''Custom GeoJSON'' [] =
     ([Sidebar_markdown ''## AOI Selection''], Inr get_default_geometry)"
  by (simp add: get_custom_geometry_app3_def)

lemma app2_returns: "\<exists>g. snd (get_custom_geometry_app2 loads ctor choice s) = Inr g"
  by (simp add: get_custom_geometry_app2_def Let_def split: sum.splits)

lemma app3_custom_returns:
  "\<exists>g. snd (get_custom_geometry_app3 loads ctor rg sb appid ''Custom GeoJSON'' s) = Inr g"
  by (simp add: get_custom_geometry_app3_def Let_def split: sum.splits)

lemma app3_saved:
  "appid \<noteq> [] \<Longrightarrow>
   get_custom_geometry_app3 loads ctor rg sb appid ''Saved Polygon'' s =
     (case get_polygon_from_api rg loads ctor sb appid of
        Inl e \<Rightarrow> ([Sidebar_markdown ''## AOI Selection''], Inl e)
      | Inr (Some geom) \<Rightarrow> ([Sidebar_markdown ''## AOI Selection''], Inr geom)
      | Inr None \<Rightarrow> ([Sidebar_markdown ''## AOI Selection'',
            Sidebar_info ''No saved polygon selected, using default.''],
           Inr get_default_geometry))"
  by (simp add: get_custom_geometry_app3_def split: sum.splits option.splits)

lemma list_polygons_connection:
  "rg (API_BASE @ ''/polygons'') appid = Inl e \<Longrightarrow> list_polygons_api rg loads appid = Inl e"
  by (simp add: list_polygons_api_def bind_def)

lemma list_polygons_status:
  "rg (API_BASE @ ''/polygons'') appid = Inr resp \<Longrightarrow> 400 \<le> status_code resp \<Longrightarrow>
   status_code resp < 600 \<Longrightarrow> list_polygons_api rg loads appid = Inl (HTTPError (status_code resp))"
  by (simp add: list_polygons_api_def bind_def raise_for_status_def)

lemma list_polygons_body:
  "rg (API_BASE @ ''/polygons'') appid = Inr resp \<Longrightarrow>
   \<not> (400 \<le> status_code resp \<and> status_code resp < 600) \<Longrightarrow>
   list_polygons_api rg loads appid = loads (content resp)"
  by (auto simp: list_polygons_api_def bind_def raise_for_status_def)

lemma polygon_api_fault:
  "list_polygons_api rg loads appid = Inl e \<Longrightarrow>
   get_polygon_from_api rg loads ctor sb appid = Inl e"
  by (simp add: get_polygon_from_api_def bind_def)

lemma try_app2_raw:
  "loads s = Inr (JDict kvs) \<Longrightarrow> ''features'' \<notin> fst ` set kvs \<Longrightarrow> ''geometry'' \<notin> fst ` set kvs \<Longrightarrow>
   try_geojson_app2 loads ctor s = ctor (JDict kvs)"
  by (simp add: try_geojson_app2_def bind_def)

lemma try_app3_raw:
  "loads s = Inr (JDict kvs) \<Longrightarrow> ''features'' \<notin> fst ` set kvs \<Longrightarrow> ''geometry'' \<notin> fst ` set kvs \<Longrightarrow>
   try_geojson_app3 loads ctor s = ctor (JDict kvs)"
proof -
  assume a: "loads s = Inr (JDict kvs)" "''features'' \<notin> fst ` set kvs" "''geometry'' \<notin> fst ` set kvs"
  from a(3) have "map_of kvs ''geometry'' = None" by (simp add: map_of_eq_None_iff)
  with a show ?thesis by (simp add: try_geojson_app3_def bind_def)
qed

lemma try_app2_geometry_key:
  "loads s = Inr (JDict kvs) \<Longrightarrow> ''features'' \<notin> fst ` set kvs \<Longrightarrow> map_of kvs ''geometry'' = Some g \<Longrightarrow>
   try_geojson_app2 loads ctor s = ctor g"
proof -
  assume a: "loads s = Inr (JDict kvs)" "''features'' \<notin> fst ` set kvs" "map_of kvs ''geometry'' = Some g"
  from a(3) have "''geometry'' \<in> fst ` set kvs" by (metis map_of_eq_None_iff option.distinct(1))
  with a show ?thesis by (simp add: try_geojson_app2_def bind_def)
qed

lemma try_app3_geometry_key:
  "loads s = Inr (JDict kvs) \<Longrightarrow> ''features'' \<notin> fst ` set kvs \<Longrightarrow> map_of kvs ''geometry'' = Some g \<Longrightarrow>
   try_geojson_app3 loads ctor s = ctor g"
  by (simp add: try_geojson_app3_def bind_def)

lemma try_app2_features:
  "loads s = Inr (JDict kvs) \<Longrightarrow> map_of kvs ''features'' = Some (JList (JDict f # rest)) \<Longrightarrow>
   map_of f ''geometry'' = Some g \<Longrightarrow> try_geojson_app2 loads ctor s = ctor g"
proof -
  assume a: "loads s = Inr (JDict kvs)" "map_of kvs ''features'' = Some (JList (JDict f # rest))"
    "map_of f ''geometry'' = Some g"
  from a(2) have "''features'' \<in> fst ` set kvs" by (metis map_of_eq_None_iff option.distinct(1))
  with a show ?thesis by (simp add: try_geojson_app2_def bind_def)
qed

lemma try_app3_features:
  "loads s = Inr (JDict kvs) \<Longrightarrow> map_of kvs ''features'' = Some (JList (JDict f # rest)) \<Longrightarrow>
   map_of f ''geometry'' = Some g \<Longrightarrow> try_geojson_app3 loads ctor s = ctor g"
proof -
  assume a: "loads s = Inr (JDict kvs)" "map_of kvs ''features'' = Some (JList (JDict f # rest))"
    "map_of f ''geometry'' = Some g"
  from a(2) have "''features'' \<in> fst ` set kvs" by (metis map_of_eq_None_iff option.distinct(1))
  with a show ?thesis by (simp add: try_geojson_app3_def bind_def)
qed

lemma pasted_open_ring: "pasted_texts open_ring_text = Inr open_ring_json"
  by (simp add: pasted_texts_def loads_table_def open_ring_text_def)

lemma pasted_square: "pasted_texts square_text = Inr square_json"
  by (simp add: pasted_texts_def loads_table_def open_ring_text_def square_text_def)

lemma pasted_other: "pasted_texts ''not json'' = Inl JSONDecodeError"
  by (simp add: pasted_texts_def loads_table_def open_ring_text_def square_text_def)

lemma pasted_empty: "pasted_texts [] = Inl JSONDecodeError"
  by (simp add: pasted_texts_def loads_table_def open_ring_text_def square_text_def)

lemma pasted_html: "pasted_texts ''<html>'' = Inl JSONDecodeError"
  by (simp add: pasted_texts_def loads_table_def open_ring_text_def square_text_def)

lemma try_open_ring:
  "try_geojson_app2 pasted_texts geometry_of_shape open_ring_text = Inr (Polygon [[(0,0),(1,0),(1,1)]])"
  "try_geojson_app3 pasted_texts geometry_of_shape open_ring_text = Inr (Polygon [[(0,0),(1,0),(1,1)]])"
  by (simp_all add: try_geojson_app2_def try_geojson_app3_def pasted_open_ring bind_def open_ring_json_def)

lemma try_square:
  "try_geojson_app2 pasted_texts geometry_of_shape square_text = Inr (Polygon [[(0,0),(1,0),(1,1),(0,0)]])"
  "try_geojson_app3 pasted_texts geometry_of_shape square_text = Inr (Polygon [[(0,0),(1,0),(1,1),(0,0)]])"
  by (simp_all add: try_geojson_app2_def try_geojson_app3_def pasted_square bind_def square_json_def)

text \<open>
  C4. In the mode \<open>Custom GeoJSON\<close>, for every pasted text that is not empty: if
  \<open>json.loads\<close> raises on it, or the selection of the geometry from the parsed value
  raises, or the geometry constructor raises, both versions of \<open>get_custom_geometry\<close>
  write an error box and return the default polygon; no exception leaves the function,
  whatever the text. On the empty text the default polygon is returned as well, with the
  note \<open>Awaiting GeoJSON input...\<close> in app2.py and with no message in app3.py. The
  default polygon is one ring of 22 positions, closed, whose first position is
  (77.6392446351248, 12.921051012051585) and whose 21 vertices are distinct.
\<close>

theorem malformed_geojson_falls_back:
  assumes "geojson_str \<noteq> []"
  shows "(\<forall>e. loads geojson_str = Inl e \<longrightarrow>
            get_custom_geometry_app2 loads ctor ''Custom GeoJSON'' geojson_str =
              ([Sidebar_markdown ''## AOI Selection'', Sidebar_error_exn ''Invalid GeoJSON: '' e],
               Inr get_default_geometry)
          \<and> get_custom_geometry_app3 loads ctor rg sb appid ''Custom GeoJSON'' geojson_str =
              ([Sidebar_markdown ''## AOI Selection'', Sidebar_error ''Invalid GeoJSON input.''],
               Inr get_default_geometry))
     \<and> (\<forall>e. try_geojson_app2 loads ctor geojson_str = Inl e \<longrightarrow>
            get_custom_geometry_app2 loads ctor ''Custom GeoJSON'' geojson_str =
              ([Sidebar_markdown ''## AOI Selection'', Sidebar_error_exn ''Invalid GeoJSON: '' e],
               Inr get_default_geometry))
     \<and> (\<forall>e. try_geojson_app3 loads ctor geojson_str = Inl e \<longrightarrow>
            get_custom_geometry_app3 loads ctor rg sb appid ''Custom GeoJSON'' geojson_str =
              ([Sidebar_markdown ''## AOI Selection'', Sidebar_error ''Invalid GeoJSON input.''],
               Inr get_default_geometry))
     \<and> (\<exists>g. snd (get_custom_geometry_app2 loads ctor choice geojson_str) = Inr g)
     \<and> (\<exists>g. snd (get_custom_geometry_app3 loads ctor rg sb appid ''Custom GeoJSON'' geojson_str)
              = Inr g)
     \<and> get_custom_geometry_app2 loads ctor ''Custom GeoJSON'' [] =
          ([Sidebar_markdown ''## AOI Selection'', Sidebar_info ''Awaiting GeoJSON input...''],
           Inr get_default_geometry)
     \<and> get_custom_geometry_app3 loads ctor rg sb appid ''Custom GeoJSON'' [] =
          ([Sidebar_markdown ''## AOI Selection''], Inr get_default_geometry)
     \<and> get_default_geometry = Polygon [default_coords]
     \<and> length default_coords = 22
     \<and> hd default_coords = (77.6392446351248, 12.921051012051585)
     \<and> last default_coords = hd default_coords
     \<and> distinct (butlast default_coords)"
proof (intro conjI allI impI)
  fix e assume "loads geojson_str = Inl e"
  then have 2: "try_geojson_app2 loads ctor geojson_str = Inl e"
    and 3: "try_geojson_app3 loads ctor geojson_str = Inl e"
    by (rule try_app2_unparsable, rule try_app3_unparsable)
  from assms 2 show "get_custom_geometry_app2 loads ctor ''Custom GeoJSON'' geojson_str =
      ([Sidebar_markdown ''## AOI Selection'', Sidebar_error_exn ''Invalid GeoJSON: '' e],
       Inr get_default_geometry)"
    by (rule app2_custom_fail)
  from assms 3 show "get_custom_geometry_app3 loads ctor rg sb appid ''Custom GeoJSON'' geojson_str =
      ([Sidebar_markdown ''## AOI Selection'', Sidebar_error ''Invalid GeoJSON input.''],
       Inr get_default_geometry)"
    by (rule app3_custom_fail)
next
  fix e assume "try_geojson_app2 loads ctor geojson_str = Inl e"
  with assms show "get_custom_geometry_app2 loads ctor ''Custom GeoJSON'' geojson_str =
      ([Sidebar_markdown ''## AOI Selection'', Sidebar_error_exn ''Invalid GeoJSON: '' e],
       Inr get_default_geometry)"
    by (rule app2_custom_fail)
next
  fix e assume "try_geojson_app3 loads ctor geojson_str = Inl e"
  with assms show "get_custom_geometry_app3 loads ctor rg sb appid ''Custom GeoJSON'' geojson_str =
      ([Sidebar_markdown ''## AOI Selection'', Sidebar_error ''Invalid GeoJSON input.''],
       Inr get_default_geometry)"
    by (rule app3_custom_fail)
next
  show "\<exists>g. snd (get_custom_geometry_app2 loads ctor choice geojson_str) = Inr g"
    by (rule app2_returns)
  show "\<exists>g. snd (get_custom_geometry_app3 loads ctor rg sb appid ''Custom GeoJSON'' geojson_str)
      = Inr g"
    by (rule app3_custom_returns)
  show "get_custom_geometry_app2 loads ctor ''Custom GeoJSON'' [] =
      ([Sidebar_markdown ''## AOI Selection'', Sidebar_info ''Awaiting GeoJSON input...''],
       Inr get_default_geometry)"
    by (rule app2_empty)
  show "get_custom_geometry_app3 loads ctor rg sb appid ''Custom GeoJSON'' [] =
      ([Sidebar_markdown ''## AOI Selection''], Inr get_default_geometry)"
    by (rule app3_empty)
  show "get_default_geometry = Polygon [default_coords]"
    by (simp add: get_default_geometry_def)
  show "length default_coords = 22" by (rule default_ring_facts)
  show "hd default_coords = (77.6392446351248, 12.921051012051585)" by (rule default_ring_facts)
  show "last default_coords = hd default_coords" by (rule default_ring_facts)
  show "distinct (butlast default_coords)" by (rule default_ring_distinct)
qed

theorem malformed_geojson_falls_back_witness:
  "''not json'' \<noteq> []
   \<and> pasted_texts ''not json'' = Inl JSONDecodeError
   \<and> get_custom_geometry_app2 pasted_texts geometry_of_shape ''Custom GeoJSON'' ''not json'' =
       ([Sidebar_markdown ''## AOI Selection'',
         Sidebar_error_exn ''Invalid GeoJSON: '' JSONDecodeError],
        Inr get_default_geometry)
   \<and> get_custom_geometry_app3 pasted_texts geometry_of_shape service_unreachable pick_none []
        ''Custom GeoJSON'' ''not json'' =
       ([Sidebar_markdown ''## AOI Selection'', Sidebar_error ''Invalid GeoJSON input.''],
        Inr get_default_geometry)"
proof -
  have ne: "''not json'' \<noteq> []" by simp
  from malformed_geojson_falls_back [OF ne, of pasted_texts geometry_of_shape
      service_unreachable pick_none "[]"] pasted_other
  show ?thesis by blast
qed

text \<open>
  The empty text is not parsable either, and app3.py answers it with the default
  polygon and nothing in the sidebar beyond the heading.
\<close>

theorem empty_text_no_warning:
  "pasted_texts [] = Inl JSONDecodeError
   \<and> get_custom_geometry_app3 pasted_texts geometry_of_shape service_unreachable pick_none []
        ''Custom GeoJSON'' [] =
       ([Sidebar_markdown ''## AOI Selection''], Inr get_default_geometry)"
  by (simp add: pasted_empty app3_empty)

text \<open>
  C5. In the mode \<open>Saved Polygon\<close> of app3.py the call of the polygon service is not
  inside any \<open>try\<close>: with a key the service refuses (status 401), with a service that
  cannot be reached, and with a body that is not JSON, the exception leaves
  \<open>get_custom_geometry\<close>; no default polygon is returned and no message is written.
\<close>

theorem saved_polygon_fault_escapes:
  "get_custom_geometry_app3 pasted_texts geometry_of_shape service_unauthorized pick_none
        ''wrong-key'' ''Saved Polygon'' [] =
     ([Sidebar_markdown ''## AOI Selection''], Inl (HTTPError 401))
   \<and> get_custom_geometry_app3 pasted_texts geometry_of_shape service_unreachable pick_none
        ''key'' ''Saved Polygon'' [] =
     ([Sidebar_markdown ''## AOI Selection''], Inl ConnectionError)
   \<and> get_custom_geometry_app3 pasted_texts geometry_of_shape service_garbled pick_none
        ''key'' ''Saved Polygon'' [] =
     ([Sidebar_markdown ''## AOI Selection''], Inl JSONDecodeError)"
proof (intro conjI)
  have "list_polygons_api service_unauthorized pasted_texts ''wrong-key'' = Inl (HTTPError 401)"
    by (simp add: list_polygons_api_def bind_def raise_for_status_def service_unauthorized_def)
  then have "get_polygon_from_api service_unauthorized pasted_texts geometry_of_shape pick_none
      ''wrong-key'' = Inl (HTTPError 401)"
    by (rule polygon_api_fault)
  then show "get_custom_geometry_app3 pasted_texts geometry_of_shape service_unauthorized pick_none
        ''wrong-key'' ''Saved Polygon'' [] =
     ([Sidebar_markdown ''## AOI Selection''], Inl (HTTPError 401))"
    by (simp add: app3_saved)
  have "list_polygons_api service_unreachable pasted_texts ''key'' = Inl ConnectionError"
    by (simp add: list_polygons_api_def bind_def service_unreachable_def)
  then have "get_polygon_from_api service_unreachable pasted_texts geometry_of_shape pick_none
      ''key'' = Inl ConnectionError"
    by (rule polygon_api_fault)
  then show "get_custom_geometry_app3 pasted_texts geometry_of_shape service_unreachable pick_none
        ''key'' ''Saved Polygon'' [] =
     ([Sidebar_markdown ''## AOI Selection''], Inl ConnectionError)"
    by (simp add: app3_saved)
  have "list_polygons_api service_garbled pasted_texts ''key'' = Inl JSONDecodeError"
    by (simp add: list_polygons_api_def bind_def raise_for_status_def service_garbled_def pasted_html)
  then have "get_polygon_from_api service_garbled pasted_texts geometry_of_shape pick_none
      ''key'' = Inl JSONDecodeError"
    by (rule polygon_api_fault)
  then show "get_custom_geometry_app3 pasted_texts geometry_of_shape service_garbled pick_none
        ''key'' ''Saved Polygon'' [] =
     ([Sidebar_markdown ''## AOI Selection''], Inl JSONDecodeError)"
    by (simp add: app3_saved)
qed

text \<open>
  When the service answers and the user leaves the pick at \<open>--None--\<close>, the default
  polygon is returned with a note.
\<close>

lemma saved_polygon_none_selected:
  "get_custom_geometry_app3 (loads_table [(''[]'', JList [])]) geometry_of_shape
        service_empty_list pick_none ''key'' ''Saved Polygon'' [] =
     ([Sidebar_markdown ''## AOI Selection'',
       Sidebar_info ''No saved polygon selected, using default.''],
      Inr get_default_geometry)"
proof -
  have "get_polygon_from_api service_empty_list (loads_table [(''[]'', JList [])])
      geometry_of_shape pick_none ''key'' = Inr None"
    by (simp add: get_polygon_from_api_def list_polygons_api_def bind_def raise_for_status_def
        service_empty_list_def loads_table_def pick_none_def)
  then show ?thesis by (simp add: app3_saved)
qed

text \<open>
  C6. \<open>get_custom_geometry\<close> has no check of its own on the ring. A pasted text that
  is not empty is accepted with exactly the geometry the constructor returns for the
  dictionary selected from the parsed text: the dictionary itself, its entry
  \<open>geometry\<close>, or the entry \<open>geometry\<close> of its first feature. A saved polygon that is
  picked is accepted with the geometry the constructor returns for it.
\<close>

theorem resolver_returns_constructed_geometry:
  assumes "geojson_str \<noteq> []"
  shows "(\<forall>g. try_geojson_app2 loads ctor geojson_str = Inr g \<longrightarrow>
            get_custom_geometry_app2 loads ctor ''Custom GeoJSON'' geojson_str =
              ([Sidebar_markdown ''## AOI Selection''], Inr g))
     \<and> (\<forall>g. try_geojson_app3 loads ctor geojson_str = Inr g \<longrightarrow>
            get_custom_geometry_app3 loads ctor rg sb appid ''Custom GeoJSON'' geojson_str =
              ([Sidebar_markdown ''## AOI Selection''], Inr g))
     \<and> (\<forall>kvs. loads geojson_str = Inr (JDict kvs) \<and> ''features'' \<notin> fst ` set kvs
            \<and> ''geometry'' \<notin> fst ` set kvs \<longrightarrow>
            try_geojson_app2 loads ctor geojson_str = ctor (JDict kvs)
          \<and> try_geojson_app3 loads ctor geojson_str = ctor (JDict kvs))
     \<and> (\<forall>kvs j. loads geojson_str = Inr (JDict kvs) \<and> ''features'' \<notin> fst ` set kvs
            \<and> map_of kvs ''geometry'' = Some j \<longrightarrow>
            try_geojson_app2 loads ctor geojson_str = ctor j
          \<and> try_geojson_app3 loads ctor geojson_str = ctor j)
     \<and> (\<forall>kvs f rest j. loads geojson_str = Inr (JDict kvs)
            \<and> map_of kvs ''features'' = Some (JList (JDict f # rest))
            \<and> map_of f ''geometry'' = Some j \<longrightarrow>
            try_geojson_app2 loads ctor geojson_str = ctor j
          \<and> try_geojson_app3 loads ctor geojson_str = ctor j)
     \<and> (\<forall>g. appid \<noteq> [] \<and> get_polygon_from_api rg loads ctor sb appid = Inr (Some g) \<longrightarrow>
            get_custom_geometry_app3 loads ctor rg sb appid ''Saved Polygon'' geojson_str =
              ([Sidebar_markdown ''## AOI Selection''], Inr g))"
proof (intro conjI allI impI)
  fix g assume "try_geojson_app2 loads ctor geojson_str = Inr g"
  with assms show "get_custom_geometry_app2 loads ctor ''Custom GeoJSON'' geojson_str =
      ([Sidebar_markdown ''## AOI Selection''], Inr g)"
    by (rule app2_custom_ok)
next
  fix g assume "try_geojson_app3 loads ctor geojson_str = Inr g"
  with assms show "get_custom_geometry_app3 loads ctor rg sb appid ''Custom GeoJSON'' geojson_str =
      ([Sidebar_markdown ''## AOI Selection''], Inr g)"
    by (rule app3_custom_ok)
next
  fix kvs assume a: "loads geojson_str = Inr (JDict kvs) \<and> ''features'' \<notin> fst ` set kvs
            \<and> ''geometry'' \<notin> fst ` set kvs"
  then show "try_geojson_app2 loads ctor geojson_str = ctor (JDict kvs)"
    by (simp add: try_app2_raw)
  from a show "try_geojson_app3 loads ctor geojson_str = ctor (JDict kvs)"
    by (simp add: try_app3_raw)
next
  fix kvs j assume a: "loads geojson_str = Inr (JDict kvs) \<and> ''features'' \<notin> fst ` set kvs
            \<and> map_of kvs ''geometry'' = Some j"
  then show "try_geojson_app2 loads ctor geojson_str = ctor j"
    by (simp add: try_app2_geometry_key)
  from a show "try_geojson_app3 loads ctor geojson_str = ctor j"
    by (simp add: try_app3_geometry_key)
next
  fix kvs f rest j assume a: "loads geojson_str = Inr (JDict kvs)
            \<and> map_of kvs ''features'' = Some (JList (JDict f # rest))
            \<and> map_of f ''geometry'' = Some j"
  then show "try_geojson_app2 loads ctor geojson_str = ctor j"
    by (blast intro: try_app2_features)
  from a show "try_geojson_app3 loads ctor geojson_str = ctor j"
    by (blast intro: try_app3_features)
next
  fix g assume "appid \<noteq> [] \<and> get_polygon_from_api rg loads ctor sb appid = Inr (Some g)"
  then show "get_custom_geometry_app3 loads ctor rg sb appid ''Saved Polygon'' geojson_str =
      ([Sidebar_markdown ''## AOI Selection''], Inr g)"
    by (simp add: app3_saved)
qed

theorem resolver_returns_constructed_geometry_witness:
  "square_text \<noteq> []
   \<and> try_geojson_app2 pasted_texts geometry_of_shape square_text
       = Inr (Polygon [[(0,0),(1,0),(1,1),(0,0)]])
   \<and> get_custom_geometry_app2 pasted_texts geometry_of_shape ''Custom GeoJSON'' square_text =
       ([Sidebar_markdown ''## AOI Selection''], Inr (Polygon [[(0,0),(1,0),(1,1),(0,0)]]))
   \<and> get_custom_geometry_app3 pasted_texts geometry_of_shape service_unreachable pick_none []
        ''Custom GeoJSON'' square_text =
       ([Sidebar_markdown ''## AOI Selection''], Inr (Polygon [[(0,0),(1,0),(1,1),(0,0)]]))"
proof -
  have ne: "square_text \<noteq> []" by (simp add: square_text_def)
  from resolver_returns_constructed_geometry [OF ne, of pasted_texts geometry_of_shape
      service_unreachable pick_none "[]"] try_square ne
  show ?thesis by blast
qed

text \<open>
  With a constructor that looks at the shape of the dictionary only, a polygon whose
  ring has three positions and is not closed is accepted by both versions.
\<close>

theorem open_ring_accepted:
  "get_custom_geometry_app2 pasted_texts geometry_of_shape ''Custom GeoJSON'' open_ring_text =
     ([Sidebar_markdown ''## AOI Selection''], Inr (Polygon [[(0,0),(1,0),(1,1)]]))
   \<and> get_custom_geometry_app3 pasted_texts geometry_of_shape service_unreachable pick_none []
        ''Custom GeoJSON'' open_ring_text =
     ([Sidebar_markdown ''## AOI Selection''], Inr (Polygon [[(0,0),(1,0),(1,1)]]))
   \<and> \<not> ring_closed_min4 [(0,0),(1,0),(1,1)]"
proof -
  have ne: "open_ring_text \<noteq> []" by (simp add: open_ring_text_def)
  show ?thesis
    using app2_custom_ok [OF ne try_open_ring(1)]
      app3_custom_ok [OF ne try_open_ring(2), of service_unreachable pick_none "[]"]
    by (simp add: ring_closed_min4_def)
qed

section \<open>Properties of the image collection query\<close>









end
